theory Spec2Isabelle
  imports Complex_Main "HOL-Library.Sublist" "HOL-Library.Word"
begin

section \<open>Values shared by the modules\<close>

text \<open>
  Everything a call can throw. The collaborators (storage, the session endpoint, the
  password hasher, the token signer, the mailer) are not part of the repository; each
  may complete or reject, and a rejection is one of these values.
  \<open>NEXT_REDIRECT\<close> is the signal with which the framework's \<open>redirect\<close> leaves
  the running function.
\<close>

datatype thrown =
    StorageFailure
  | NetworkFailure
  | HashFailure
  | SignFailure
  | MailFailure
  | NEXT_REDIRECT string

section \<open>The request gate\<close>

text \<open>
  What the gate reads from a \<open>NextRequest\<close>: \<open>nextUrl.pathname\<close>, the string form of
  \<open>nextUrl\<close> (a \<open>NextURL\<close> converts to its \<open>href\<close>, the whole URL), \<open>request.url\<close>
  and the \<open>Cookie\<close> header.
\<close>

record NextURL =
  pathname :: string
  href :: string

record NextRequest =
  nextUrl :: NextURL
  url :: string
  cookie_header :: "string option"

text \<open>
  \<open>NextResponse.next()\<close> and \<open>NextResponse.redirect(new URL(input, base))\<close>; the URL
  constructor is the platform's and stays unevaluated: the response carries its two
  arguments.
\<close>

datatype NextResponse = Next | Redirect string string

datatype http_method = GET | POST | PUT

text \<open>
  The observable steps of one pass through the gate, in order: a read of the cookie
  store, a read of a request header, a call of the session endpoint (URL, method and the
  forwarded \<open>Cookie\<close> header).
\<close>

datatype gate_event =
    CookiesGet string
  | HeadersGet string
  | Fetch string http_method string

text \<open>
  The session endpoint, reached by \<open>fetch\<close>: for a URL, a method and the forwarded
  cookie header it yields the \<open>status\<close> member of the JSON body (\<open>None\<close> when the body
  has none), or the call rejects (no connection, a body that is not JSON, a \<open>null\<close>
  body).
\<close>

type_synonym session_api = "string \<Rightarrow> http_method \<Rightarrow> string \<Rightarrow> thrown + string option"

subsection \<open>Class \<open>Auth\<close>\<close>

record AuthConfig =
  publicRoutes :: "string list option"
  privateRoutes :: "string list option"
  redirectToLoginURL :: string

record Auth =
  auth_publicRoutes :: "string list"
  auth_privateRoutes :: "string list"
  auth_redirectToLoginURL :: string

definition auth :: "AuthConfig \<Rightarrow> Auth" where
  "auth config =
     \<lparr> auth_publicRoutes = (case publicRoutes config of None \<Rightarrow> [] | Some rs \<Rightarrow> rs),
       auth_privateRoutes = (case privateRoutes config of None \<Rightarrow> [] | Some rs \<Rightarrow> rs),
       auth_redirectToLoginURL = redirectToLoginURL config \<rparr>"

definition isPublicRoute :: "Auth \<Rightarrow> string \<Rightarrow> bool" where
  "isPublicRoute this u = list_ex (\<lambda>route. u = route \<or> prefix route u) (auth_publicRoutes this)"

definition isPrivateRoute :: "Auth \<Rightarrow> string \<Rightarrow> bool" where
  "isPrivateRoute this u = list_ex (\<lambda>route. u = route \<or> prefix route u) (auth_privateRoutes this)"

text \<open>
  \<open>isAuthenticated\<close>: a missing or empty \<open>Cookie\<close> header is falsy and answers
  \<open>false\<close> at once; otherwise the session is fetched, refreshed once when its status
  is \<open>expired\<close>, and the answer is whether the last status is \<open>success\<close>.
\<close>

definition isAuthenticated :: "session_api \<Rightarrow> NextRequest \<Rightarrow> gate_event list \<times> (thrown + bool)" where
  "isAuthenticated api request =
     (case cookie_header request of
        None \<Rightarrow> ([HeadersGet ''Cookie''], Inr False)
      | Some sessionCookie \<Rightarrow>
          if sessionCookie = [] then ([HeadersGet ''Cookie''], Inr False)
          else
            (case api ''http://localhost:3000/api/auth/session'' GET sessionCookie of
               Inl e \<Rightarrow>
                 ([HeadersGet ''Cookie'',
                   Fetch ''http://localhost:3000/api/auth/session'' GET sessionCookie], Inl e)
             | Inr session \<Rightarrow>
                 if session = Some ''expired'' then
                   (case api ''http://localhost:3000/api/auth/session/refresh'' PUT sessionCookie of
                      Inl e \<Rightarrow>
                        ([HeadersGet ''Cookie'',
                          Fetch ''http://localhost:3000/api/auth/session'' GET sessionCookie,
                          Fetch ''http://localhost:3000/api/auth/session/refresh'' PUT sessionCookie],
                         Inl e)
                    | Inr session' \<Rightarrow>
                        ([HeadersGet ''Cookie'',
                          Fetch ''http://localhost:3000/api/auth/session'' GET sessionCookie,
                          Fetch ''http://localhost:3000/api/auth/session/refresh'' PUT sessionCookie],
                         Inr (session' = Some ''success'')))
                 else
                   ([HeadersGet ''Cookie'',
                     Fetch ''http://localhost:3000/api/auth/session'' GET sessionCookie],
                    Inr (session = Some ''success''))))"

definition middleware :: "session_api \<Rightarrow> Auth \<Rightarrow> NextRequest \<Rightarrow> gate_event list \<times> (thrown + NextResponse)" where
  "middleware api this request =
     (let pathName = pathname (nextUrl request);
          publicRoute = isPublicRoute this pathName;
          privateRoute = isPrivateRoute this pathName
      in if publicRoute \<and> \<not> privateRoute then ([], Inr Next)
         else if privateRoute then
           (case isAuthenticated api request of
              (evs, Inl e) \<Rightarrow> (CookiesGet ''session'' # evs, Inl e)
            | (evs, Inr authenticated) \<Rightarrow>
                if \<not> authenticated then
                  (CookiesGet ''session'' # evs,
                   Inr (Redirect (auth_redirectToLoginURL this @ ''?redirect_uri='' @ href (nextUrl request))
                          (url request)))
                else (CookiesGet ''session'' # evs, Inr Next))
         else ([], Inr Next))"

subsection \<open>Class \<open>Authbase\<close>\<close>

record AuthbaseConfig =
  publicEndpoints :: "string list option"
  privateEndpoints :: "string list option"
  loginRedirectURL :: string

record Authbase =
  authbase_publicEndpoints :: "string list"
  authbase_privateEndpoints :: "string list"
  authbase_loginRedirectURL :: string

definition initializeAuthbase :: "AuthbaseConfig \<Rightarrow> Authbase" where
  "initializeAuthbase config =
     \<lparr> authbase_publicEndpoints = (case publicEndpoints config of None \<Rightarrow> [] | Some rs \<Rightarrow> rs),
       authbase_privateEndpoints = (case privateEndpoints config of None \<Rightarrow> [] | Some rs \<Rightarrow> rs),
       authbase_loginRedirectURL = loginRedirectURL config \<rparr>"

definition checkPublicEndpoint :: "Authbase \<Rightarrow> string \<Rightarrow> bool" where
  "checkPublicEndpoint this u =
     list_ex (\<lambda>route. u = route \<or> prefix route u) (authbase_publicEndpoints this)"

definition checkPrivateEndpoint :: "Authbase \<Rightarrow> string \<Rightarrow> bool" where
  "checkPrivateEndpoint this u =
     list_ex (\<lambda>route. u = route \<or> prefix route u) (authbase_privateEndpoints this)"

definition verifyAuthentication :: "session_api \<Rightarrow> NextRequest \<Rightarrow> gate_event list \<times> (thrown + bool)" where
  "verifyAuthentication api request =
     (case cookie_header request of
        None \<Rightarrow> ([HeadersGet ''Cookie''], Inr False)
      | Some sessionCookie \<Rightarrow>
          if sessionCookie = [] then ([HeadersGet ''Cookie''], Inr False)
          else
            (case api ''http://localhost:3000/api/authbase/session'' GET sessionCookie of
               Inl e \<Rightarrow>
                 ([HeadersGet ''Cookie'',
                   Fetch ''http://localhost:3000/api/authbase/session'' GET sessionCookie], Inl e)
             | Inr session \<Rightarrow>
                 if session = Some ''expired'' then
                   (case api ''http://localhost:3000/api/authbase/session/refresh'' PUT sessionCookie of
                      Inl e \<Rightarrow>
                        ([HeadersGet ''Cookie'',
                          Fetch ''http://localhost:3000/api/authbase/session'' GET sessionCookie,
                          Fetch ''http://localhost:3000/api/authbase/session/refresh'' PUT sessionCookie],
                         Inl e)
                    | Inr session' \<Rightarrow>
                        ([HeadersGet ''Cookie'',
                          Fetch ''http://localhost:3000/api/authbase/session'' GET sessionCookie,
                          Fetch ''http://localhost:3000/api/authbase/session/refresh'' PUT sessionCookie],
                         Inr (session' = Some ''success'')))
                 else
                   ([HeadersGet ''Cookie'',
                     Fetch ''http://localhost:3000/api/authbase/session'' GET sessionCookie],
                    Inr (session = Some ''success''))))"

definition handleRequest :: "session_api \<Rightarrow> Authbase \<Rightarrow> NextRequest \<Rightarrow> gate_event list \<times> (thrown + NextResponse)" where
  "handleRequest api this request =
     (let path = pathname (nextUrl request);
          isPublicEndpoint = checkPublicEndpoint this path;
          isPrivateEndpoint = checkPrivateEndpoint this path
      in if isPublicEndpoint \<and> \<not> isPrivateEndpoint then ([], Inr Next)
         else if isPrivateEndpoint then
           (case verifyAuthentication api request of
              (evs, Inl e) \<Rightarrow> (CookiesGet ''session'' # evs, Inl e)
            | (evs, Inr isAuthenticated') \<Rightarrow>
                if \<not> isAuthenticated' then
                  (CookiesGet ''session'' # evs,
                   Inr (Redirect (authbase_loginRedirectURL this @ ''?redirect_uri='' @ href (nextUrl request))
                          (url request)))
                else (CookiesGet ''session'' # evs, Inr Next))
         else ([], Inr Next))"

subsection \<open>The deployed configuration and sample requests\<close>

text \<open>
  The configuration of the repository's \<open>middleware\<close> module, where the public prefix
  \<open>/\<close> covers every path, the private prefix \<open>/dashboard\<close> included; the same route
  lists for class \<open>Auth\<close>.
\<close>

definition authbase :: Authbase where
  "authbase =
     initializeAuthbase
       \<lparr> publicEndpoints = Some [''/'', ''/auth/''],
         privateEndpoints = Some [''/dashboard''],
         loginRedirectURL = ''/auth/login'' \<rparr>"

definition auth_deployed :: Auth where
  "auth_deployed =
     auth \<lparr> publicRoutes = Some [''/'', ''/auth/''],
            privateRoutes = Some [''/dashboard''],
            redirectToLoginURL = ''/auth/login'' \<rparr>"

definition auth_private_only :: Auth where
  "auth_private_only =
     auth \<lparr> publicRoutes = None,
            privateRoutes = Some [''/dashboard''],
            redirectToLoginURL = ''/auth/login'' \<rparr>"

definition authbase_private_only :: Authbase where
  "authbase_private_only =
     initializeAuthbase
       \<lparr> publicEndpoints = None,
         privateEndpoints = Some [''/dashboard''],
         loginRedirectURL = ''/auth/login'' \<rparr>"

definition dashboard_request :: "string option \<Rightarrow> NextRequest" where
  "dashboard_request c =
     \<lparr> nextUrl = \<lparr> pathname = ''/dashboard'', href = ''http://localhost:3000/dashboard'' \<rparr>,
       url = ''http://localhost:3000/dashboard'',
       cookie_header = c \<rparr>"

definition pricing_request :: "string option \<Rightarrow> NextRequest" where
  "pricing_request c =
     \<lparr> nextUrl = \<lparr> pathname = ''/pricing'', href = ''http://localhost:3000/pricing'' \<rparr>,
       url = ''http://localhost:3000/pricing'',
       cookie_header = c \<rparr>"

text \<open>Session endpoints: one that knows no session, one whose session needs a refresh.\<close>

definition api_rejecting :: session_api where
  "api_rejecting u m c = Inr (Some ''error'')"

definition api_refreshing :: session_api where
  "api_refreshing u m c = (if m = GET then Inr (Some ''expired'') else Inr (Some ''success''))"

definition api_expired :: session_api where
  "api_expired u m c = (if m = GET then Inr (Some ''expired'') else Inr (Some ''error''))"

section \<open>The platform\<close>

subsection \<open>Dates\<close>

text \<open>
  A time value is the number of milliseconds since the epoch; a \<open>Date\<close> holds a time
  value or, when a computation leaves the range of \<open>\<plusminus>8.64\<cdot>10\<^sup>1\<^sup>5\<close>, none
  (\<open>Invalid Date\<close>). The system clock yields time values.

  \<open>getSeconds\<close> and \<open>setSeconds\<close> work on the fields of the local time, as the
  language standard defines them. Their parameter \<open>tza\<close> is the \<open>LocalTZA(t, isUTC)\<close>
  of the standard, the offset of the local zone in milliseconds: for \<open>isUTC = True\<close>
  the offset in force at the UTC time \<open>t\<close>, for \<open>isUTC = False\<close> the offset in force
  at the local time \<open>t\<close>. \<open>setSeconds\<close> converts to local time with the first,
  replaces the seconds field, converts back with the second, taken at the new local
  time, and clips the result to the range.
\<close>

type_synonym timestamp = int

datatype js_date = Date timestamp | Invalid_Date

definition Day :: "int \<Rightarrow> int" where
  "Day t = t div 86400000"

definition HourFromTime :: "int \<Rightarrow> int" where
  "HourFromTime t = (t div 3600000) mod 24"

definition MinFromTime :: "int \<Rightarrow> int" where
  "MinFromTime t = (t div 60000) mod 60"

definition SecFromTime :: "int \<Rightarrow> int" where
  "SecFromTime t = (t div 1000) mod 60"

definition msFromTime :: "int \<Rightarrow> int" where
  "msFromTime t = t mod 1000"

definition MakeTime :: "int \<Rightarrow> int \<Rightarrow> int \<Rightarrow> int \<Rightarrow> int" where
  "MakeTime h m s ms = h * 3600000 + m * 60000 + s * 1000 + ms"

definition MakeDate :: "int \<Rightarrow> int \<Rightarrow> int" where
  "MakeDate day time = day * 86400000 + time"

definition LocalTime :: "(int \<Rightarrow> bool \<Rightarrow> int) \<Rightarrow> timestamp \<Rightarrow> int" where
  "LocalTime tza t = t + tza t True"

definition UTC :: "(int \<Rightarrow> bool \<Rightarrow> int) \<Rightarrow> int \<Rightarrow> int" where
  "UTC tza t = t - tza t False"

definition TimeClip :: "int \<Rightarrow> js_date" where
  "TimeClip time = (if \<bar>time\<bar> > 8640000000000000 then Invalid_Date else Date time)"

definition getSeconds :: "(int \<Rightarrow> bool \<Rightarrow> int) \<Rightarrow> timestamp \<Rightarrow> int" where
  "getSeconds tza t = SecFromTime (LocalTime tza t)"

definition setSeconds :: "(int \<Rightarrow> bool \<Rightarrow> int) \<Rightarrow> timestamp \<Rightarrow> int \<Rightarrow> js_date" where
  "setSeconds tza t sec =
     (let l = LocalTime tza t
      in TimeClip
           (UTC tza (MakeDate (Day l) (MakeTime (HourFromTime l) (MinFromTime l) sec (msFromTime l)))))"

subsection \<open>Numbers\<close>

text \<open>
  A JavaScript number is a double. The doubles are taken as the reals they denote, and
  an arithmetic operation as the exact operation followed by rounding to the nearest
  double, ties to the even significand. \<open>ulp_exponent x\<close> is the exponent of the unit
  in the last place at the magnitude of \<open>x\<close>: \<open>\<lfloor>log\<^sub>2 \<bar>x\<bar>\<rfloor> - 52\<close>, and \<open>-1074\<close> in
  the subnormal range; it is found by stepping down from the largest exponent, 971.
  Magnitudes from \<open>2\<^sup>1\<^sup>0\<^sup>2\<^sup>4\<close> on, which round to infinity, are outside this model.
\<close>

definition round_half_even :: "real \<Rightarrow> int" where
  "round_half_even q =
     (let n = \<lfloor>q\<rfloor>; f = q - of_int n
      in if f < 1 / 2 then n else if 1 / 2 < f then n + 1 else if even n then n else n + 1)"

function ulp_down :: "real \<Rightarrow> int \<Rightarrow> int" where
  "ulp_down x e = (if e \<le> - 1074 \<or> 2 powi (e + 52) \<le> x then e else ulp_down x (e - 1))"
  by pat_completeness auto
termination
  by (relation "measure (\<lambda>(x, e). nat (e + 1074))") auto

definition ulp_exponent :: "real \<Rightarrow> int" where
  "ulp_exponent x = ulp_down \<bar>x\<bar> 971"

definition round_double :: "real \<Rightarrow> real" where
  "round_double x =
     of_int (round_half_even (x / 2 powi ulp_exponent x)) * 2 powi ulp_exponent x"

text \<open>A real is a double when rounding leaves it as it is.\<close>

definition is_double :: "real \<Rightarrow> bool" where
  "is_double x = (round_double x = x)"

subsection \<open>Strings\<close>

text \<open>
  A password is a JavaScript string, a sequence of 16-bit code units: \<open>length\<close> counts
  code units and the character classes \<open>[A-Z]\<close> and \<open>[0-9]\<close> test single code units.
  Identifiers, addresses, messages and digests are plain strings.
\<close>

type_synonym js_string = "16 word list"

definition utf16 :: "string \<Rightarrow> js_string" where
  "utf16 s = map (\<lambda>c. of_nat (of_char c)) s"

definition test_upper :: "js_string \<Rightarrow> bool" where
  "test_upper s = list_ex (\<lambda>c. 65 \<le> c \<and> c \<le> 90) s"

definition test_digit :: "js_string \<Rightarrow> bool" where
  "test_digit s = list_ex (\<lambda>c. 48 \<le> c \<and> c \<le> 57) s"

text \<open>\<open>Buffer.toString("hex")\<close>: two lower-case hexadecimal digits for each byte.\<close>

definition hex_digit :: "nat \<Rightarrow> char" where
  "hex_digit n = ''0123456789abcdef'' ! (n mod 16)"

definition toString_hex :: "8 word list \<Rightarrow> string" where
  "toString_hex bytes = concat (map (\<lambda>b. [hex_digit (unat b div 16), hex_digit (unat b)]) bytes)"

text \<open>
  \<open>join("")\<close> puts the string forms of the elements of an array one after the other.
  The array of numbers that \<open>verifyUserEmail\<close> receives is read by \<open>join\<close> only, so
  it is given as the list of the string forms of its numbers, those that the language
  prints: \<open>1\<close> for 1, \<open>5.9\<close> for 5.9, \<open>5e+21\<close> for \<open>5e21\<close>.
\<close>

definition join :: "string list \<Rightarrow> string" where
  "join xs = concat xs"

text \<open>
  \<open>parseInt\<close> with one argument, step by step as the standard has it: leading white
  space is dropped (of the characters a string of this model holds: tab, line feed,
  vertical tab, form feed, carriage return, space, no-break space), then a sign is
  read, then a prefix \<open>0x\<close> or \<open>0X\<close> makes the radix 16, otherwise it is 10; the
  digits of that radix that follow are the number, which is rounded to a double; with
  no digit the result is \<open>NaN\<close>, here \<open>None\<close>. Zero is one value, whatever its
  sign: the source only compares the result.
\<close>

definition is_space :: "char \<Rightarrow> bool" where
  "is_space c = (c \<in> set [CHR 0x09, CHR 0x0A, CHR 0x0B, CHR 0x0C, CHR 0x0D, CHR 0x20, CHR 0xA0])"

definition digit_value :: "char \<Rightarrow> nat option" where
  "digit_value c =
     (let n = (of_char c :: nat)
      in if 48 \<le> n \<and> n \<le> 57 then Some (n - 48)
         else if 97 \<le> n \<and> n \<le> 122 then Some (n - 87)
         else if 65 \<le> n \<and> n \<le> 90 then Some (n - 55)
         else None)"

definition is_radix_digit :: "nat \<Rightarrow> char \<Rightarrow> bool" where
  "is_radix_digit R c = (case digit_value c of None \<Rightarrow> False | Some d \<Rightarrow> d < R)"

definition digits_value :: "nat \<Rightarrow> string \<Rightarrow> nat" where
  "digits_value R Z =
     foldl (\<lambda>a c. R * a + (case digit_value c of None \<Rightarrow> 0 | Some d \<Rightarrow> d)) 0 Z"

definition parseInt :: "string \<Rightarrow> real option" where
  "parseInt inputString =
     (let S = dropWhile is_space inputString;
          sign = (if take 1 S = ''-'' then - 1 else 1);
          S' = (if take 1 S = ''-'' \<or> take 1 S = ''+'' then drop 1 S else S);
          R = (if take 2 S' = ''0x'' \<or> take 2 S' = ''0X'' then 16 else 10);
          S'' = (if R = 16 then drop 2 S' else S');
          Z = takeWhile (is_radix_digit R) S''
      in if Z = [] then None
         else Some (round_double (of_int (sign * int (digits_value R Z)))))"

subsection \<open>Values bound where a string is expected\<close>

text \<open>
  An \<open>async\<close> function returns a promise. \<open>Promise v\<close> is the promise that resolves to
  \<open>v\<close>; only \<open>await\<close> turns it into \<open>v\<close>. A field that the schema declares as text is
  bound either to a string or, when the promise was never awaited, to the promise object
  itself.
\<close>

datatype 'a promise = Promise 'a

datatype text_value = Text string | Unresolved "string promise"

section \<open>Storage, cookies and collaborators\<close>

text \<open>
  The tables of the schema; a table is the list of its rows. The rows hold valid dates,
  as time values, and the code of a verification is an integer column of 32 bits. The
  expiry that \<open>AuthManager\<close> writes is a reading of the clock plus an hour, which lies
  within the range of dates for any reading of a running clock.
\<close>

record user_row =
  user_id :: string
  user_name :: string
  user_email :: string
  user_emailVerified :: "timestamp option"
  user_password :: string
  user_createdAt :: timestamp
  user_lastPasswordChange :: "timestamp option"

record session_row =
  session_id :: string
  session_userId :: string
  session_accessToken :: text_value
  session_refreshToken :: text_value
  session_expiresAt :: js_date
  session_createdAt :: timestamp
  session_lastActive :: timestamp

record verification_row =
  verification_userId :: string
  verification_code :: int
  verification_expiresAt :: timestamp

record database =
  users :: "user_row list"
  sessions :: "session_row list"
  verifications :: "verification_row list"

text \<open>A cookie as \<open>cookies().set(name, value, options)\<close> stores it.\<close>

record cookie =
  cookie_value :: string
  cookie_expires :: "js_date option"
  cookie_maxAge :: "int option"
  cookie_httpOnly :: "bool option"
  cookie_secure :: "bool option"
  cookie_sameSite :: "string option"
  cookie_path :: "string option"

text \<open>
  The state a server action works on: the database, the cookie store of the request,
  and how much of the system clock and of the random source has been consumed.
\<close>

record world =
  db :: database
  cookieStore :: "string \<rightharpoonup> cookie"
  clock_reads :: nat
  entropy_used :: nat

text \<open>The objects the actions return.\<close>

record reply =
  status :: string
  message :: "string option"
  userId :: "string option"
  session :: "string option"

abbreviation error_reply :: "string \<Rightarrow> reply" where
  "error_reply m \<equiv> \<lparr> status = ''error'', message = Some m, userId = None, session = None \<rparr>"

abbreviation success_reply :: "string \<Rightarrow> reply" where
  "success_reply m \<equiv> \<lparr> status = ''success'', message = Some m, userId = None, session = None \<rparr>"

record session_payload =
  payload_id :: string
  payload_userId :: string
  payload_accessToken :: text_value
  payload_refreshToken :: text_value
  payload_expiresAt :: js_date

record mail =
  mail_from :: string
  mail_to :: string
  mail_subject :: string
  mail_html :: "string \<times> int"

text \<open>
  The database calls of the source, one name for each place that issues one; the
  transaction of \<open>registerUser\<close> issues four: its begin, its two inserts and its commit.
\<close>

datatype db_call =
    CreateSession_SelectUser
  | CreateSession_InsertSession
  | Register_SelectUser
  | Register_Begin
  | Register_InsertUser
  | Register_InsertVerification
  | Register_Commit
  | Authenticate_SelectUser
  | Verify_SelectUser
  | Verify_SelectVerification
  | Verify_UpdateUser
  | Resend_SelectUser
  | Resend_SelectVerification
  | Resend_UpdateVerification

text \<open>
  What the modules take from outside the repository. \<open>LocalTZA\<close> is the zone of
  the server, as the standard's operation of that name. \<open>clock\<close> gives the
  successive readings of the system clock and \<open>entropy\<close> the successive random
  bytes; \<open>uuidv4\<close> and \<open>Math_random\<close> are the one draw an action makes of each,
  the latter the double that \<open>Math.random()\<close> returns.
  \<open>db_throws\<close> says which database calls reject and \<open>db_undefined\<close> which resolve to
  \<open>undefined\<close>. \<open>emails_send\<close> yields the \<open>error\<close> member of the mailer's answer
  (\<open>None\<close> for \<open>null\<close>). \<open>redirect\<close> is the framework's function: whatever it does,
  returning a value or throwing, is a parameter.
\<close>

record env =
  APP_KEY :: string
  NODE_ENV :: string
  LocalTZA :: "int \<Rightarrow> bool \<Rightarrow> int"
  clock :: "nat \<Rightarrow> timestamp"
  entropy :: "nat \<Rightarrow> 8 word"
  uuidv4 :: string
  Math_random :: real
  createHmac_sha256_hex :: "string \<Rightarrow> string \<Rightarrow> string"
  signToken :: "session_payload \<Rightarrow> thrown + string"
  hashPassword :: "js_string \<Rightarrow> thrown + string"
  comparePassword :: "js_string \<Rightarrow> string \<Rightarrow> thrown + bool"
  emails_send :: "mail \<Rightarrow> thrown + string option"
  db_throws :: "db_call \<Rightarrow> bool"
  db_undefined :: "db_call \<Rightarrow> bool"
  redirect :: "string \<Rightarrow> thrown + reply"
  defaultLoginRedirect :: string
  defaultLogoutRedirect :: string

definition Date_now :: "env \<Rightarrow> world \<Rightarrow> timestamp \<times> world" where
  "Date_now e w = (clock e (clock_reads w), w\<lparr>clock_reads := Suc (clock_reads w)\<rparr>)"

definition randomBytes :: "env \<Rightarrow> world \<Rightarrow> nat \<Rightarrow> 8 word list \<times> world" where
  "randomBytes e w n =
     (map (entropy e) [entropy_used w ..< entropy_used w + n],
      w\<lparr>entropy_used := entropy_used w + n\<rparr>)"

text \<open>
  \<open>Math.floor(10000 + Math.random() * 90000)\<close>: the product and the sum are
  rounded to doubles, the floor of a double is exact.
\<close>

definition random_code :: "env \<Rightarrow> int" where
  "random_code e = \<lfloor>round_double (10000 + round_double (Math_random e * 90000))\<rfloor>"

text \<open>
  \<open>orderBy(desc(expiresAt)).limit(1)\<close> over the rows of one user. \<open>userId\<close> is the
  primary key of the table, so a table that satisfies its constraints holds one such
  row at most and the order among equal expiries never matters.
\<close>

definition latest_verification :: "database \<Rightarrow> string \<Rightarrow> verification_row list" where
  "latest_verification d uid =
     take 1 (rev (sort_key verification_expiresAt
                    (filter (\<lambda>v. verification_userId v = uid) (verifications d))))"

text \<open>
  The two updates of the source: \<open>update(users).set({emailVerified}).where(id = uid)\<close> and
  \<open>update(verifications).set({code, expiresAt}).where(userId = uid)\<close>. An update changes
  every row that matches and leaves the others.
\<close>

definition update_emailVerified :: "database \<Rightarrow> string \<Rightarrow> timestamp \<Rightarrow> database" where
  "update_emailVerified d uid t =
     d\<lparr>users := map (\<lambda>u. if user_id u = uid then u\<lparr>user_emailVerified := Some t\<rparr> else u)
                    (users d)\<rparr>"

definition update_verification :: "database \<Rightarrow> string \<Rightarrow> int \<Rightarrow> timestamp \<Rightarrow> database" where
  "update_verification d uid code t =
     d\<lparr>verifications :=
         map (\<lambda>v. if verification_userId v = uid
                   then v\<lparr>verification_code := code, verification_expiresAt := t\<rparr>
                   else v)
           (verifications d)\<rparr>"

section \<open>Module \<open>SessionManager\<close>\<close>

text \<open>
  \<open>generateToken\<close> is declared \<open>async\<close>: a call draws 16 random bytes, computes the
  keyed digest of their hexadecimal form and returns a promise of the digest.
\<close>

definition generateToken :: "env \<Rightarrow> world \<Rightarrow> string promise \<times> world" where
  "generateToken e w =
     (let (bytes, w') = randomBytes e w 16;
          token = toString_hex bytes;
          hash = createHmac_sha256_hex e (APP_KEY e) token
      in (Promise hash, w'))"

text \<open>
  \<open>createSession\<close> calls \<open>generateToken()\<close> twice without \<open>await\<close> and binds the
  two results as they are. The insert rejects when the database call fails or when the
  fresh identifier is already a primary key of the table.
\<close>

definition createSession :: "env \<Rightarrow> world \<Rightarrow> string \<Rightarrow> (thrown + reply) \<times> world" where
  "createSession e w uid =
     (if db_throws e CreateSession_SelectUser then (Inl StorageFailure, w)
      else
        let userResult = take 1 (filter (\<lambda>u. user_id u = uid) (users (db w)))
        in if length userResult = 0 then (Inr (error_reply ''User not found''), w)
           else
             let sessionId = uuidv4 e;
                 (accessToken, w1) = generateToken e w;
                 (refreshToken, w2) = generateToken e w1;
                 (createdAt, w3) = Date_now e w2;
                 expiresAt = setSeconds (LocalTZA e) createdAt (getSeconds (LocalTZA e) createdAt + 10)
             in if db_throws e CreateSession_InsertSession
                   \<or> sessionId \<in> set (map session_id (sessions (db w3)))
                then (Inl StorageFailure, w3)
                else
                  let w4 = w3\<lparr>db := (db w3)\<lparr>sessions := sessions (db w3) @
                             [\<lparr> session_id = sessionId,
                                session_userId = uid,
                                session_accessToken = Unresolved accessToken,
                                session_refreshToken = Unresolved refreshToken,
                                session_expiresAt = expiresAt,
                                session_createdAt = createdAt,
                                session_lastActive = createdAt \<rparr>]\<rparr>\<rparr>
                  in if db_undefined e CreateSession_InsertSession
                     then (Inr (error_reply ''Unable to create session''), w4)
                     else
                       (case signToken e \<lparr> payload_id = sessionId,
                                           payload_userId = uid,
                                           payload_accessToken = Unresolved accessToken,
                                           payload_refreshToken = Unresolved refreshToken,
                                           payload_expiresAt = expiresAt \<rparr> of
                          Inl err \<Rightarrow> (Inr (error_reply ''Unable to store local session''), w4)
                        | Inr sessionCookie \<Rightarrow>
                            (Inr \<lparr> status = ''success'',
                                   message = Some ''Successfully created session'',
                                   userId = None,
                                   session = Some sessionCookie \<rparr>,
                             w4\<lparr>cookieStore := (cookieStore w4)(''session'' \<mapsto>
                                  \<lparr> cookie_value = sessionCookie,
                                    cookie_expires = Some expiresAt,
                                    cookie_maxAge = None,
                                    cookie_httpOnly = Some True,
                                    cookie_secure = Some (NODE_ENV e = ''production''),
                                    cookie_sameSite = Some ''strict'',
                                    cookie_path = Some ''/'' \<rparr>)\<rparr>)))"

text \<open>The digest of the 16 random bytes that start at position \<open>k\<close> of the random source.\<close>

definition token_digest :: "env \<Rightarrow> nat \<Rightarrow> string" where
  "token_digest e k =
     createHmac_sha256_hex e (APP_KEY e) (toString_hex (map (entropy e) [k ..< k + 16]))"

section \<open>Module \<open>AuthManager\<close>\<close>

text \<open>
  A \<open>try\<close> block whose handler returns a fixed error object: whatever the block throws
  is replaced by that object; what the block did to the state before it threw stays.
\<close>

definition catch_all :: "string \<Rightarrow> (thrown + reply) \<times> world \<Rightarrow> (thrown + reply) \<times> world" where
  "catch_all m r = (case r of (Inl err, w) \<Rightarrow> (Inr (error_reply m), w) | (Inr v, w) \<Rightarrow> (Inr v, w))"

text \<open>
  The mail with a code. Its \<open>html\<close> is the text \<open>Verification code: \<close> followed by
  the string form of the number; the pair holds the text and the number.
\<close>

definition verification_mail :: "string \<Rightarrow> int \<Rightarrow> mail" where
  "verification_mail to code =
     \<lparr> mail_from = ''Bans <no-reply@bans.io>'',
       mail_to = to,
       mail_subject = ''[Bans.io] Verify your account'',
       mail_html = (''Verification code: '', code) \<rparr>"

subsection \<open>\<open>registerUser\<close>\<close>

text \<open>
  The account transaction is started and never awaited: the action goes on to send the
  mail whatever becomes of it, and a rejection of the transaction reaches no handler of
  the action. \<open>accountTransaction\<close> gives the state once the transaction has settled.
  Its steps, in the order of the source: the password is hashed, the clock is read for
  \<open>createdAt\<close>, the user is inserted, the clock is read for the expiry, the
  verification is inserted. A step that fails ends the transaction there and undoes its
  inserts; the readings of the clock taken so far stay taken.
\<close>

definition accountTransaction ::
  "env \<Rightarrow> world \<Rightarrow> string \<Rightarrow> string \<Rightarrow> string \<Rightarrow> js_string \<Rightarrow> int \<Rightarrow> world" where
  "accountTransaction e w uid name' email' password code =
     (if db_throws e Register_Begin then w
      else
        (case hashPassword e password of
           Inl err \<Rightarrow> w
         | Inr hashed \<Rightarrow>
             let (createdAt, w1) = Date_now e w
             in if db_throws e Register_InsertUser
                   \<or> uid \<in> set (map user_id (users (db w1)))
                then w1
                else
                  let (now, w2) = Date_now e w1
                  in if db_throws e Register_InsertVerification
                        \<or> uid \<in> set (map verification_userId (verifications (db w2)))
                        \<or> db_throws e Register_Commit
                     then w2
                     else w2\<lparr>db := (db w2)
                            \<lparr> users := users (db w2) @
                                [\<lparr> user_id = uid, user_name = name', user_email = email',
                                   user_emailVerified = None, user_password = hashed,
                                   user_createdAt = createdAt, user_lastPasswordChange = None \<rparr>],
                              verifications := verifications (db w2) @
                                [\<lparr> verification_userId = uid, verification_code = code,
                                   verification_expiresAt = now + 1000 * 60 * 60 \<rparr>] \<rparr>\<rparr>))"

definition registerUser_try ::
  "env \<Rightarrow> world \<Rightarrow> string \<Rightarrow> string \<Rightarrow> js_string \<Rightarrow> (thrown + reply) \<times> world" where
  "registerUser_try e w name' email' password =
     (if db_throws e Register_SelectUser then (Inl StorageFailure, w)
      else
        let result = filter (\<lambda>u. user_email u = email') (users (db w))
        in if length result > 0 then (Inr (error_reply ''Email already registered''), w)
           else
             let uid = uuidv4 e;
                 code = random_code e;
                 w1 = accountTransaction e w uid name' email' password code
             in (case emails_send e (verification_mail email' code) of
                   Inl err \<Rightarrow> (Inr (error_reply ''Unable to send verification email''), w1)
                 | Inr (Some data_error) \<Rightarrow>
                     (Inr (error_reply ''Unable to send verification email''), w1)
                 | Inr None \<Rightarrow>
                     (Inr \<lparr> status = ''success'', message = Some ''Verification email sent'',
                            userId = Some uid, session = None \<rparr>, w1)))"

definition registerUser ::
  "env \<Rightarrow> world \<Rightarrow> string \<Rightarrow> string \<Rightarrow> js_string \<Rightarrow> js_string \<Rightarrow> (thrown + reply) \<times> world" where
  "registerUser e w name' email' password confirmPassword =
     (if length password < 8
      then (Inr (error_reply ''Password must be at least 8 characters long''), w)
      else if \<not> test_upper password
      then (Inr (error_reply ''Password must have at least one uppercase character''), w)
      else if \<not> test_digit password
      then (Inr (error_reply ''Password must have at least one number''), w)
      else if password \<noteq> confirmPassword
      then (Inr (error_reply ''Passwords do not match''), w)
      else catch_all ''Unable to login to account'' (registerUser_try e w name' email' password))"

subsection \<open>\<open>authenticateUser\<close>\<close>

definition authenticateUser_try ::
  "env \<Rightarrow> world \<Rightarrow> string \<Rightarrow> js_string \<Rightarrow> (thrown + reply) \<times> world" where
  "authenticateUser_try e w email' password =
     (if db_throws e Authenticate_SelectUser then (Inl StorageFailure, w)
      else
        (case filter (\<lambda>u. user_email u = email') (users (db w)) of
           [] \<Rightarrow> (Inr (error_reply ''Email was not found''), w)
         | user # rest \<Rightarrow>
             (case comparePassword e password (user_password user) of
                Inl err \<Rightarrow> (Inl err, w)
              | Inr matches \<Rightarrow>
                  if \<not> matches then (Inr (error_reply ''Incorrect password''), w)
                  else
                    (case user_emailVerified user of
                       None \<Rightarrow>
                         (Inr \<lparr> status = ''unverified'', message = None,
                                userId = Some (user_id user), session = None \<rparr>, w)
                     | Some verifiedAt \<Rightarrow>
                         (case createSession e w (user_id user) of
                            (Inl err, w') \<Rightarrow> (Inl err, w')
                          | (Inr created, w') \<Rightarrow>
                              if status created = ''error''
                              then (Inr (error_reply ''Unable to create session''), w')
                              else (Inr (success_reply ''Logged in successfully''), w'))))))"

definition authenticateUser ::
  "env \<Rightarrow> world \<Rightarrow> string \<Rightarrow> js_string \<Rightarrow> (thrown + reply) \<times> world" where
  "authenticateUser e w email' password =
     (if length password < 8
      then (Inr (error_reply ''Password must be at least 8 characters long''), w)
      else if \<not> test_upper password
      then (Inr (error_reply ''Password must have at least one uppercase character''), w)
      else if \<not> test_digit password
      then (Inr (error_reply ''Password must have at least one number''), w)
      else catch_all ''Unable to login to account'' (authenticateUser_try e w email' password))"

subsection \<open>\<open>logoutUser\<close>\<close>

definition logoutUser :: "env \<Rightarrow> world \<Rightarrow> (thrown + reply) \<times> world" where
  "logoutUser e w =
     (case cookieStore w ''session'' of
        None \<Rightarrow> (redirect e (defaultLogoutRedirect e), w)
      | Some sessionCookie \<Rightarrow>
          (redirect e (defaultLogoutRedirect e),
           w\<lparr>cookieStore := (cookieStore w)(''session'' \<mapsto>
                \<lparr> cookie_value = '''',
                  cookie_expires = None,
                  cookie_maxAge = Some 0,
                  cookie_httpOnly = None,
                  cookie_secure = None,
                  cookie_sameSite = None,
                  cookie_path = Some ''/'' \<rparr>)\<rparr>))"

subsection \<open>\<open>verifyUserEmail\<close>\<close>

text \<open>
  \<open>authCode\<close> is the array of numbers the form submits, given as the list of their
  string forms. The stored code and the number that \<open>parseInt\<close> reads are compared
  as numbers. The whole body stands in one \<open>try\<close> block, the concluding call of
  \<open>redirect\<close> included.
\<close>

definition verifyUserEmail_try ::
  "env \<Rightarrow> world \<Rightarrow> string \<Rightarrow> string list \<Rightarrow> (thrown + reply) \<times> world" where
  "verifyUserEmail_try e w uid authCode =
     (if db_throws e Verify_SelectUser then (Inl StorageFailure, w)
      else
        (case filter (\<lambda>u. user_id u = uid) (users (db w)) of
           [] \<Rightarrow> (Inr (error_reply ''User not found''), w)
         | user # rest \<Rightarrow>
             if user_emailVerified user \<noteq> None
             then (Inr (error_reply ''Email already verified''), w)
             else if db_throws e Verify_SelectVerification then (Inl StorageFailure, w)
             else
               (case latest_verification (db w) uid of
                  [] \<Rightarrow> (Inr (error_reply ''Verification code not found''), w)
                | verification # rest' \<Rightarrow>
                    let (now, w1) = Date_now e w
                    in if verification_expiresAt verification < now
                       then (Inr (error_reply ''Verification code has expired''), w1)
                       else if Some (real_of_int (verification_code verification)) \<noteq>
                                 parseInt (join authCode)
                       then (Inr (error_reply ''Incorrect verification code''), w1)
                       else
                         let (verifiedAt, w2) = Date_now e w1
                         in if db_throws e Verify_UpdateUser then (Inl StorageFailure, w2)
                            else
                              let w3 = w2\<lparr>db := update_emailVerified (db w2) uid verifiedAt\<rparr>
                              in if db_undefined e Verify_UpdateUser
                                 then (Inr (error_reply ''Unable to verify email''), w3)
                                 else
                                   (case createSession e w3 (user_id user) of
                                      (Inl err, w4) \<Rightarrow> (Inl err, w4)
                                    | (Inr created, w4) \<Rightarrow>
                                        if status created = ''error''
                                        then (Inr (error_reply ''Unable to create session''), w4)
                                        else (redirect e (defaultLoginRedirect e), w4)))))"

definition verifyUserEmail ::
  "env \<Rightarrow> world \<Rightarrow> string \<Rightarrow> string list \<Rightarrow> (thrown + reply) \<times> world" where
  "verifyUserEmail e w uid authCode =
     catch_all ''Unable to verify email'' (verifyUserEmail_try e w uid authCode)"

subsection \<open>\<open>resendUserEmailVerification\<close>\<close>

text \<open>Only the sending of the mail stands in a \<open>try\<close> block here.\<close>

definition throttle_message :: string where
  "throttle_message =
     ''Please wait a bit longer! You'' @ [CHR 0x27] @
     ''ve already received a verification code less than 5 minutes ago.''"

definition resendUserEmailVerification ::
  "env \<Rightarrow> world \<Rightarrow> string \<Rightarrow> (thrown + reply) \<times> world" where
  "resendUserEmailVerification e w uid =
     (if db_throws e Resend_SelectUser then (Inl StorageFailure, w)
      else
        (case filter (\<lambda>u. user_id u = uid) (users (db w)) of
           [] \<Rightarrow> (Inr (error_reply ''User not found''), w)
         | user # rest \<Rightarrow>
             if user_emailVerified user \<noteq> None
             then (Inr (error_reply ''Email already verified''), w)
             else if db_throws e Resend_SelectVerification then (Inl StorageFailure, w)
             else
               let verificationResult = latest_verification (db w) uid;
                   (throttled, w1) =
                     (case verificationResult of
                        [] \<Rightarrow> (False, w)
                      | verification # rest' \<Rightarrow>
                          let (now, w') = Date_now e w
                          in (verification_expiresAt verification > now + 1000 * 60 * 5, w'))
               in if throttled then (Inr (error_reply throttle_message), w1)
                  else
                    let code = random_code e;
                        (now, w2) = Date_now e w1
                    in if db_throws e Resend_UpdateVerification then (Inl StorageFailure, w2)
                       else
                         let w3 = w2\<lparr>db := update_verification (db w2) uid code
                                                   (now + 1000 * 60 * 60)\<rparr>
                         in if db_undefined e Resend_UpdateVerification
                            then (Inr (error_reply ''Unable to send verification email''), w3)
                            else
                              (case emails_send e (verification_mail (user_email user) code) of
                                 Inl err \<Rightarrow>
                                   (Inr (error_reply ''Unable to send verification email''), w3)
                               | Inr (Some data_error) \<Rightarrow>
                                   (Inr (error_reply ''Unable to send verification email''), w3)
                               | Inr None \<Rightarrow>
                                   (Inr (success_reply ''Verification email sent''), w3))))"

section \<open>The checks in the words of the specification\<close>

text \<open>
  The password policy: at least 8 characters, at least one upper-case letter, at least
  one digit; the message is that of the first requirement the password misses.
\<close>

definition password_policy_error :: "js_string \<Rightarrow> string option" where
  "password_policy_error p =
     (if length p < 8 then Some ''Password must be at least 8 characters long''
      else if \<not> (\<exists>c \<in> set p. 65 \<le> c \<and> c \<le> 90)
      then Some ''Password must have at least one uppercase character''
      else if \<not> (\<exists>c \<in> set p. 48 \<le> c \<and> c \<le> 57)
      then Some ''Password must have at least one number''
      else None)"

text \<open>
  What a submitted code deserves for a user, at the time \<open>now\<close>: not found when the
  user or a stored code is missing, already verified, expired when the stored expiry is
  strictly before \<open>now\<close>, mismatch when the number that \<open>parseInt\<close> reads from the
  joined submission is not the stored code, accepted otherwise.
\<close>

datatype verify_check = NotFound | AlreadyVerified | Expired | Mismatch | Accepted

definition verify_check :: "database \<Rightarrow> timestamp \<Rightarrow> string \<Rightarrow> string list \<Rightarrow> verify_check" where
  "verify_check d now uid authCode =
     (case filter (\<lambda>u. user_id u = uid) (users d) of
        [] \<Rightarrow> NotFound
      | user # rest \<Rightarrow>
          if user_emailVerified user \<noteq> None then AlreadyVerified
          else
            (case latest_verification d uid of
               [] \<Rightarrow> NotFound
             | v # rest' \<Rightarrow>
                 if verification_expiresAt v < now then Expired
                 else if parseInt (join authCode) \<noteq> Some (real_of_int (verification_code v))
                 then Mismatch
                 else Accepted))"

text \<open>The error messages that stand for each kind of refusal.\<close>

definition failure_messages :: "verify_check \<Rightarrow> string set" where
  "failure_messages k =
     (case k of
        NotFound \<Rightarrow> {''User not found'', ''Verification code not found''}
      | AlreadyVerified \<Rightarrow> {''Email already verified''}
      | Expired \<Rightarrow> {''Verification code has expired''}
      | Mismatch \<Rightarrow> {''Incorrect verification code''}
      | Accepted \<Rightarrow> {})"

text \<open>
  The state in which \<open>verifyUserEmail\<close> calls \<open>createSession\<close>: two readings of the
  clock taken, the second one stored as the user's \<open>emailVerified\<close>.
\<close>

definition verified_state :: "env \<Rightarrow> world \<Rightarrow> string \<Rightarrow> world" where
  "verified_state e w uid =
     w\<lparr>clock_reads := Suc (Suc (clock_reads w)),
       db := update_emailVerified (db w) uid (clock e (Suc (clock_reads w)))\<rparr>"

section \<open>Sample data\<close>

text \<open>
  One registered, unverified user with a pending verification code, and collaborators
  that all work: a server in a zone without offset, a clock that advances by a
  millisecond at each reading from \<open>1000000\<close>, the bytes \<open>0, 1, 2, \<dots>\<close> as random source, a stand-in for the keyed
  digest that spells out its arguments, a signer that labels the session identifier, and
  the framework's \<open>redirect\<close>, which throws its signal.
\<close>

definition sample_user :: user_row where
  "sample_user =
     \<lparr> user_id = ''u1'', user_name = ''A'', user_email = ''a@x.com'',
       user_emailVerified = None, user_password = ''stored-hash'',
       user_createdAt = 0, user_lastPasswordChange = None \<rparr>"

definition sample_db :: database where
  "sample_db =
     \<lparr> users = [sample_user],
       sessions = [],
       verifications =
         [\<lparr> verification_userId = ''u1'', verification_code = 12345,
            verification_expiresAt = 1200000 \<rparr>] \<rparr>"

definition sample_world :: world where
  "sample_world = \<lparr> db = sample_db, cookieStore = Map.empty, clock_reads = 0, entropy_used = 0 \<rparr>"

definition sample_env :: env where
  "sample_env =
     \<lparr> APP_KEY = ''key'',
       NODE_ENV = ''production'',
       LocalTZA = (\<lambda>t isUTC. 0),
       clock = (\<lambda>n. 1000000 + int n),
       entropy = (\<lambda>n. of_nat n),
       uuidv4 = ''s1'',
       Math_random = 1 / 2,
       createHmac_sha256_hex = (\<lambda>k m. ''hmac('' @ k @ '','' @ m @ '')''),
       signToken = (\<lambda>p. Inr (''signed:'' @ payload_id p)),
       hashPassword = (\<lambda>p. Inr ''stored-hash''),
       comparePassword = (\<lambda>p h. Inr True),
       emails_send = (\<lambda>m. Inr None),
       db_throws = (\<lambda>c. False),
       db_undefined = (\<lambda>c. False),
       redirect = (\<lambda>u. Inl (NEXT_REDIRECT u)),
       defaultLoginRedirect = ''/dashboard'',
       defaultLogoutRedirect = ''/auth/login'' \<rparr>"

text \<open>
  The zone of New York in the autumn of 2024: daylight time, four hours behind UTC,
  until 3 November 06:00 UTC (time value \<open>1730613600000\<close>), standard time, five hours
  behind, from then on. The local times of the hour that the change repeats are read
  with the offset before the change, as the standard prescribes.
\<close>

definition new_york_2024 :: "int \<Rightarrow> bool \<Rightarrow> int" where
  "new_york_2024 t isUTC =
     (if isUTC then (if t < 1730613600000 then - 14400000 else - 18000000)
      else (if t < 1730613600000 - 14400000 then - 14400000 else - 18000000))"

text \<open>
  The sample server in that zone, five seconds before the change (05:59:55 UTC), and half
  an hour after it (06:30:00 UTC), within the repeated hour.
\<close>

definition before_change_env :: env where
  "before_change_env =
     sample_env\<lparr>LocalTZA := new_york_2024, clock := (\<lambda>n. 1730613595000 + int n)\<rparr>"

definition repeated_hour_env :: env where
  "repeated_hour_env =
     sample_env\<lparr>LocalTZA := new_york_2024, clock := (\<lambda>n. 1730615400000 + int n)\<rparr>"

text \<open>The same collaborators with a storage whose every call rejects.\<close>

definition storage_down_env :: env where
  "storage_down_env = sample_env\<lparr>db_throws := (\<lambda>c. True)\<rparr>"

text \<open>The same collaborators with a signer that fails.\<close>

definition signer_down_env :: env where
  "signer_down_env = sample_env\<lparr>signToken := (\<lambda>p. Inl SignFailure)\<rparr>"

text \<open>The same user once the address is verified, and a store that holds a session cookie.\<close>

definition verified_world :: world where
  "verified_world =
     sample_world\<lparr>db := sample_db\<lparr>users := [sample_user\<lparr>user_emailVerified := Some 500000\<rparr>]\<rparr>\<rparr>"

definition logged_in_world :: world where
  "logged_in_world =
     verified_world\<lparr>cookieStore :=
       [''session'' \<mapsto>
          \<lparr> cookie_value = ''signed:s0'', cookie_expires = Some (Date 900000),
            cookie_maxAge = None,
            cookie_httpOnly = Some True, cookie_secure = Some True,
            cookie_sameSite = Some ''strict'', cookie_path = Some ''/'' \<rparr>]\<rparr>"

section \<open>Properties of the request gate\<close>

lemma isAuthenticated_reads_header:
  "HeadersGet ''Cookie'' \<in> set (fst (isAuthenticated api req))"
  by (simp add: isAuthenticated_def split: option.split sum.split)

lemma verifyAuthentication_reads_header:
  "HeadersGet ''Cookie'' \<in> set (fst (verifyAuthentication api req))"
  by (simp add: verifyAuthentication_def split: option.split sum.split)

text \<open>
  When the session counts as valid: the request carries a non-empty \<open>Cookie\<close> header
  and the endpoint answers \<open>success\<close>, at once or to the refresh that follows an
  \<open>expired\<close> answer.
\<close>

lemma isAuthenticated_True_iff:
  "snd (isAuthenticated api req) = Inr True \<longleftrightarrow>
     (\<exists>c. cookie_header req = Some c \<and> c \<noteq> [] \<and>
        (api ''http://localhost:3000/api/auth/session'' GET c = Inr (Some ''success'') \<or>
         api ''http://localhost:3000/api/auth/session'' GET c = Inr (Some ''expired'') \<and>
         api ''http://localhost:3000/api/auth/session/refresh'' PUT c = Inr (Some ''success'')))"
  by (auto simp add: isAuthenticated_def split: option.split sum.split)

lemma verifyAuthentication_True_iff:
  "snd (verifyAuthentication api req) = Inr True \<longleftrightarrow>
     (\<exists>c. cookie_header req = Some c \<and> c \<noteq> [] \<and>
        (api ''http://localhost:3000/api/authbase/session'' GET c = Inr (Some ''success'') \<or>
         api ''http://localhost:3000/api/authbase/session'' GET c = Inr (Some ''expired'') \<and>
         api ''http://localhost:3000/api/authbase/session/refresh'' PUT c = Inr (Some ''success'')))"
  by (auto simp add: verifyAuthentication_def split: option.split sum.split)

text \<open>
  Validation fails, as opposed to throwing: no usable header, or a first answer that is
  neither \<open>success\<close> nor \<open>expired\<close>, or an \<open>expired\<close> answer whose refresh does not
  answer \<open>success\<close>.
\<close>

lemma isAuthenticated_False_iff:
  "snd (isAuthenticated api req) = Inr False \<longleftrightarrow>
     (cookie_header req = None \<or> cookie_header req = Some [] \<or>
      (\<exists>c s. cookie_header req = Some c \<and> c \<noteq> [] \<and>
         (api ''http://localhost:3000/api/auth/session'' GET c = Inr s \<and>
            s \<noteq> Some ''success'' \<and> s \<noteq> Some ''expired'' \<or>
          api ''http://localhost:3000/api/auth/session'' GET c = Inr (Some ''expired'') \<and>
            api ''http://localhost:3000/api/auth/session/refresh'' PUT c = Inr s \<and>
            s \<noteq> Some ''success'')))"
  by (auto simp add: isAuthenticated_def split: option.split sum.split)

lemma middleware_private:
  assumes "isPrivateRoute a (pathname (nextUrl req))"
  shows "middleware api a req =
     (CookiesGet ''session'' # fst (isAuthenticated api req),
      case snd (isAuthenticated api req) of
        Inl e \<Rightarrow> Inl e
      | Inr ok \<Rightarrow>
          Inr (if ok then Next
               else Redirect (auth_redirectToLoginURL a @ ''?redirect_uri='' @ href (nextUrl req))
                      (url req)))"
  using assms by (simp add: middleware_def Let_def split: prod.split sum.split)

lemma handleRequest_private:
  assumes "checkPrivateEndpoint b (pathname (nextUrl req))"
  shows "handleRequest api b req =
     (CookiesGet ''session'' # fst (verifyAuthentication api req),
      case snd (verifyAuthentication api req) of
        Inl e \<Rightarrow> Inl e
      | Inr ok \<Rightarrow>
          Inr (if ok then Next
               else Redirect (authbase_loginRedirectURL b @ ''?redirect_uri='' @ href (nextUrl req))
                      (url req)))"
  using assms by (simp add: handleRequest_def Let_def split: prod.split sum.split)

lemma middleware_unclassified:
  assumes "\<not> isPublicRoute a (pathname (nextUrl req))"
      and "\<not> isPrivateRoute a (pathname (nextUrl req))"
  shows "middleware api a req = ([], Inr Next)"
  using assms by (simp add: middleware_def Let_def)

lemma handleRequest_unclassified:
  assumes "\<not> checkPublicEndpoint b (pathname (nextUrl req))"
      and "\<not> checkPrivateEndpoint b (pathname (nextUrl req))"
  shows "handleRequest api b req = ([], Inr Next)"
  using assms by (simp add: handleRequest_def Let_def)

text \<open>
  A session that the endpoint reports as expired and then refreshes passes the gate;
  the steps taken are the two reads and the two calls, in this order.
\<close>

lemma refreshed_session_passes:
  "middleware api_refreshing auth_deployed (dashboard_request (Some ''session=abc'')) =
     ([CookiesGet ''session'', HeadersGet ''Cookie'',
       Fetch ''http://localhost:3000/api/auth/session'' GET ''session=abc'',
       Fetch ''http://localhost:3000/api/auth/session/refresh'' PUT ''session=abc''],
      Inr Next)"
  by (simp add: middleware_def isAuthenticated_def Let_def isPublicRoute_def isPrivateRoute_def
      dashboard_request_def auth_deployed_def auth_def api_refreshing_def)

text \<open>
  Claim C1. A path that matches a public prefix and a private prefix (by equality or as
  a prefix) is handled as private in both gates: the cookie store and the \<open>Cookie\<close>
  header are read, the request is let through exactly when the session validation
  answers true, and the result is never that of the public-only branch, which lets the
  request through with no step taken.
\<close>

theorem private_overrides_public:
  assumes "\<exists>r \<in> set pub. p = r \<or> prefix r p"
      and "\<exists>r \<in> set priv. p = r \<or> prefix r p"
      and "pathname (nextUrl req) = p"
      and "auth_publicRoutes a = pub" and "auth_privateRoutes a = priv"
      and "authbase_publicEndpoints b = pub" and "authbase_privateEndpoints b = priv"
  shows "(isPublicRoute a p \<and> isPrivateRoute a p \<and>
          CookiesGet ''session'' \<in> set (fst (middleware api a req)) \<and>
          HeadersGet ''Cookie'' \<in> set (fst (middleware api a req)) \<and>
          (snd (middleware api a req) = Inr Next \<longleftrightarrow> snd (isAuthenticated api req) = Inr True) \<and>
          middleware api a req \<noteq> ([], Inr Next)) \<and>
         (checkPublicEndpoint b p \<and> checkPrivateEndpoint b p \<and>
          CookiesGet ''session'' \<in> set (fst (handleRequest api b req)) \<and>
          HeadersGet ''Cookie'' \<in> set (fst (handleRequest api b req)) \<and>
          (snd (handleRequest api b req) = Inr Next \<longleftrightarrow>
             snd (verifyAuthentication api req) = Inr True) \<and>
          handleRequest api b req \<noteq> ([], Inr Next))"
proof -
  have pub_a: "isPublicRoute a p" and pub_b: "checkPublicEndpoint b p"
    using assms by (simp_all add: isPublicRoute_def checkPublicEndpoint_def list_ex_iff)
  have priv_a: "isPrivateRoute a (pathname (nextUrl req))"
    using assms by (simp add: isPrivateRoute_def list_ex_iff)
  have priv_b: "checkPrivateEndpoint b (pathname (nextUrl req))"
    using assms by (simp add: checkPrivateEndpoint_def list_ex_iff)
  note m = middleware_private [OF priv_a, of api]
  note h = handleRequest_private [OF priv_b, of api]
  have "CookiesGet ''session'' \<in> set (fst (middleware api a req))"
    by (simp add: m)
  moreover have "HeadersGet ''Cookie'' \<in> set (fst (middleware api a req))"
    by (simp add: m isAuthenticated_reads_header)
  moreover have "snd (middleware api a req) = Inr Next \<longleftrightarrow> snd (isAuthenticated api req) = Inr True"
    by (simp add: m split: sum.split)
  moreover have "middleware api a req \<noteq> ([], Inr Next)"
    by (simp add: m)
  moreover have "CookiesGet ''session'' \<in> set (fst (handleRequest api b req))"
    by (simp add: h)
  moreover have "HeadersGet ''Cookie'' \<in> set (fst (handleRequest api b req))"
    by (simp add: h verifyAuthentication_reads_header)
  moreover have "snd (handleRequest api b req) = Inr Next \<longleftrightarrow>
      snd (verifyAuthentication api req) = Inr True"
    by (simp add: h split: sum.split)
  moreover have "handleRequest api b req \<noteq> ([], Inr Next)"
    by (simp add: h)
  ultimately show ?thesis
    using pub_a pub_b priv_a priv_b assms(3) by simp
qed

text \<open>
  The deployed route lists at \<open>/dashboard\<close>, which \<open>/\<close> makes public and \<open>/dashboard\<close>
  private, for a request without a cookie: both gates answer with the redirect.
\<close>

theorem private_overrides_public_witness:
  "(\<exists>r \<in> set [''/'', ''/auth/'']. ''/dashboard'' = r \<or> prefix r ''/dashboard'') \<and>
   (\<exists>r \<in> set [''/dashboard'']. ''/dashboard'' = r \<or> prefix r ''/dashboard'') \<and>
   snd (middleware api_rejecting auth_deployed (dashboard_request None)) \<noteq> Inr Next \<and>
   middleware api_rejecting auth_deployed (dashboard_request None) \<noteq> ([], Inr Next) \<and>
   snd (handleRequest api_rejecting authbase (dashboard_request None)) \<noteq> Inr Next \<and>
   handleRequest api_rejecting authbase (dashboard_request None) \<noteq> ([], Inr Next)"
proof -
  have pub: "\<exists>r \<in> set [''/'', ''/auth/'']. ''/dashboard'' = r \<or> prefix r ''/dashboard''"
    by simp
  have priv: "\<exists>r \<in> set [''/dashboard'']. ''/dashboard'' = r \<or> prefix r ''/dashboard''"
    by simp
  have no_session: "snd (isAuthenticated api_rejecting (dashboard_request None)) \<noteq> Inr True"
    by (simp add: isAuthenticated_def dashboard_request_def)
  have no_session': "snd (verifyAuthentication api_rejecting (dashboard_request None)) \<noteq> Inr True"
    by (simp add: verifyAuthentication_def dashboard_request_def)
  from private_overrides_public [OF pub priv, of "dashboard_request None" auth_deployed authbase
      api_rejecting]
  show ?thesis
    using pub priv no_session no_session'
    by (simp add: dashboard_request_def auth_deployed_def authbase_def auth_def
        initializeAuthbase_def)
qed

text \<open>
  Claim C9. A path that matches no public and no private prefix is let through by both
  gates with no step taken: no read of the cookie store, no read of the \<open>Cookie\<close>
  header, no call of the session endpoint, whatever the request carries and whatever the
  endpoint would answer.
\<close>

theorem unclassified_path_is_allowed:
  assumes "\<not> (\<exists>r \<in> set pub. p = r \<or> prefix r p)"
      and "\<not> (\<exists>r \<in> set priv. p = r \<or> prefix r p)"
      and "pathname (nextUrl req) = p"
      and "auth_publicRoutes a = pub" and "auth_privateRoutes a = priv"
      and "authbase_publicEndpoints b = pub" and "authbase_privateEndpoints b = priv"
  shows "middleware api a req = ([], Inr Next) \<and> handleRequest api b req = ([], Inr Next)"
proof -
  have "\<not> isPublicRoute a (pathname (nextUrl req))" "\<not> isPrivateRoute a (pathname (nextUrl req))"
    using assms by (simp_all add: isPublicRoute_def isPrivateRoute_def list_ex_iff)
  moreover have "\<not> checkPublicEndpoint b (pathname (nextUrl req))"
    "\<not> checkPrivateEndpoint b (pathname (nextUrl req))"
    using assms by (simp_all add: checkPublicEndpoint_def checkPrivateEndpoint_def list_ex_iff)
  ultimately show ?thesis
    by (simp add: middleware_unclassified handleRequest_unclassified)
qed

text \<open>
  With only \<open>/dashboard\<close> configured (private), \<open>/pricing\<close> is unclassified: a request
  without any cookie passes, although the endpoint knows no session.
\<close>

theorem unclassified_path_is_allowed_witness:
  "\<not> (\<exists>r \<in> set ([] :: string list). ''/pricing'' = r \<or> prefix r ''/pricing'') \<and>
   \<not> (\<exists>r \<in> set [''/dashboard'']. ''/pricing'' = r \<or> prefix r ''/pricing'') \<and>
   middleware api_rejecting auth_private_only (pricing_request None) = ([], Inr Next) \<and>
   handleRequest api_rejecting authbase_private_only (pricing_request None) = ([], Inr Next)"
proof -
  have pub: "\<not> (\<exists>r \<in> set ([] :: string list). ''/pricing'' = r \<or> prefix r ''/pricing'')"
    by simp
  have priv: "\<not> (\<exists>r \<in> set [''/dashboard'']. ''/pricing'' = r \<or> prefix r ''/pricing'')"
    by simp
  from unclassified_path_is_allowed [OF pub priv, of "pricing_request None" auth_private_only
      authbase_private_only api_rejecting]
  show ?thesis
    using pub priv
    by (simp add: pricing_request_def auth_private_only_def authbase_private_only_def auth_def
        initializeAuthbase_def)
qed

text \<open>
  Claim C6, as amended. On a private path, when the session validation answers false
  (no usable \<open>Cookie\<close> header, or the endpoint does not answer \<open>success\<close>, the refresh
  after an \<open>expired\<close> answer included), both gates answer with a redirect to the login
  URL followed by \<open>?redirect_uri=\<close> and the string form of \<open>request.nextUrl\<close>, which
  is the whole requested URL and not its path, resolved against \<open>request.url\<close>.
\<close>

theorem failed_validation_redirects_to_login:
  assumes "\<exists>r \<in> set priv. p = r \<or> prefix r p"
      and "pathname (nextUrl req) = p"
      and "auth_privateRoutes a = priv" and "authbase_privateEndpoints b = priv"
      and "auth_redirectToLoginURL a = login" and "authbase_loginRedirectURL b = login"
  shows "(snd (isAuthenticated api req) = Inr False \<longrightarrow>
            snd (middleware api a req) =
              Inr (Redirect (login @ ''?redirect_uri='' @ href (nextUrl req)) (url req))) \<and>
         (snd (verifyAuthentication api req) = Inr False \<longrightarrow>
            snd (handleRequest api b req) =
              Inr (Redirect (login @ ''?redirect_uri='' @ href (nextUrl req)) (url req)))"
proof -
  have priv_a: "isPrivateRoute a (pathname (nextUrl req))"
    using assms by (simp add: isPrivateRoute_def list_ex_iff)
  have priv_b: "checkPrivateEndpoint b (pathname (nextUrl req))"
    using assms by (simp add: checkPrivateEndpoint_def list_ex_iff)
  show ?thesis
    using assms(5,6)
    by (simp add: middleware_private [OF priv_a] handleRequest_private [OF priv_b])
qed

text \<open>
  A request for \<open>/dashboard\<close> whose session has expired and whose refresh is refused.
\<close>

theorem failed_validation_redirects_to_login_witness:
  "(\<exists>r \<in> set [''/dashboard'']. ''/dashboard'' = r \<or> prefix r ''/dashboard'') \<and>
   snd (isAuthenticated api_expired (dashboard_request (Some ''session=abc''))) = Inr False \<and>
   snd (middleware api_expired auth_deployed (dashboard_request (Some ''session=abc''))) =
     Inr (Redirect ''/auth/login?redirect_uri=http://localhost:3000/dashboard''
            ''http://localhost:3000/dashboard'') \<and>
   snd (verifyAuthentication api_expired (dashboard_request (Some ''session=abc''))) = Inr False \<and>
   snd (handleRequest api_expired authbase (dashboard_request (Some ''session=abc''))) =
     Inr (Redirect ''/auth/login?redirect_uri=http://localhost:3000/dashboard''
            ''http://localhost:3000/dashboard'')"
proof -
  have priv: "\<exists>r \<in> set [''/dashboard'']. ''/dashboard'' = r \<or> prefix r ''/dashboard''"
    by simp
  have f: "snd (isAuthenticated api_expired (dashboard_request (Some ''session=abc''))) = Inr False"
    by (simp add: isAuthenticated_def dashboard_request_def api_expired_def)
  have f': "snd (verifyAuthentication api_expired (dashboard_request (Some ''session=abc''))) = Inr False"
    by (simp add: verifyAuthentication_def dashboard_request_def api_expired_def)
  from failed_validation_redirects_to_login [OF priv, of "dashboard_request (Some ''session=abc'')"
      auth_deployed authbase "''/auth/login''" api_expired]
  show ?thesis
    using priv f f'
    by (simp add: dashboard_request_def auth_deployed_def authbase_def auth_def
        initializeAuthbase_def)
qed

text \<open>
  Claim C6 as stated fails: for the request of \<open>/dashboard\<close> without a cookie the
  path is private and the validation answers false, yet the redirect does not carry the
  requested path \<open>/dashboard\<close> as \<open>redirect_uri\<close>; it carries the whole URL.
\<close>

theorem redirect_uri_is_not_the_path:
  "isPrivateRoute auth_deployed (pathname (nextUrl (dashboard_request None))) \<and>
   snd (isAuthenticated api_rejecting (dashboard_request None)) = Inr False \<and>
   snd (middleware api_rejecting auth_deployed (dashboard_request None)) \<noteq>
     Inr (Redirect (''/auth/login'' @ ''?redirect_uri='' @ pathname (nextUrl (dashboard_request None)))
            (url (dashboard_request None))) \<and>
   snd (middleware api_rejecting auth_deployed (dashboard_request None)) =
     Inr (Redirect ''/auth/login?redirect_uri=http://localhost:3000/dashboard''
            ''http://localhost:3000/dashboard'') \<and>
   checkPrivateEndpoint authbase (pathname (nextUrl (dashboard_request None))) \<and>
   snd (verifyAuthentication api_rejecting (dashboard_request None)) = Inr False \<and>
   snd (handleRequest api_rejecting authbase (dashboard_request None)) \<noteq>
     Inr (Redirect (''/auth/login'' @ ''?redirect_uri='' @ pathname (nextUrl (dashboard_request None)))
            (url (dashboard_request None)))"
  by (simp add: middleware_def handleRequest_def isAuthenticated_def verifyAuthentication_def
      Let_def isPublicRoute_def isPrivateRoute_def checkPublicEndpoint_def checkPrivateEndpoint_def
      dashboard_request_def auth_deployed_def authbase_def auth_def initializeAuthbase_def)

section \<open>Properties of the platform functions\<close>

subsection \<open>Dates\<close>

lemma time_fields:
  "MakeDate (Day l) (MakeTime (HourFromTime l) (MinFromTime l) (SecFromTime l + k) (msFromTime l))
     = l + k * 1000"
proof -
  have a: "l div 60000 = (l div 1000) div 60"
    using zdiv_zmult2_eq [of 60 l 1000] by simp
  have b: "l div 3600000 = (l div 1000) div 60 div 60"
    using zdiv_zmult2_eq [of 60 l 60000] a by simp
  have c: "l div 86400000 = (l div 1000) div 60 div 60 div 24"
    using zdiv_zmult2_eq [of 24 l 3600000] b by simp
  define s where "s = l div 1000"
  define m where "m = s div 60"
  define h where "h = m div 60"
  define d where "d = h div 24"
  define lm where "lm = l mod 1000"
  define sm where "sm = s mod 60"
  define mm where "mm = m mod 60"
  define hm where "hm = h mod 24"
  have 1: "l = s * 1000 + lm" by (simp add: s_def lm_def)
  have 2: "s = m * 60 + sm" by (simp add: m_def sm_def)
  have 3: "m = h * 60 + mm" by (simp add: h_def mm_def)
  have 4: "h = d * 24 + hm" by (simp add: d_def hm_def)
  have "d * 86400000 + (hm * 3600000 + mm * 60000 + (sm + k) * 1000 + lm) = l + k * 1000"
    by (subst 1, subst 2, subst 3, subst 4) (simp add: algebra_simps)
  then show ?thesis
    unfolding MakeDate_def MakeTime_def Day_def HourFromTime_def MinFromTime_def SecFromTime_def
      msFromTime_def a b c s_def [symmetric] m_def [symmetric] h_def [symmetric]
      d_def [symmetric] lm_def [symmetric] sm_def [symmetric] mm_def [symmetric] hm_def [symmetric]
    by simp
qed

text \<open>
  Moving the seconds field ten ahead: the local time moves by ten seconds, and the way
  back to UTC takes the offset in force at that new local time.
\<close>

lemma setSeconds_plus_10:
  "setSeconds tza t (getSeconds tza t + 10) =
     TimeClip (LocalTime tza t + 10000 - tza (LocalTime tza t + 10000) False)"
  by (simp add: setSeconds_def getSeconds_def Let_def UTC_def time_fields)

text \<open>
  When that offset is the one in force at the start, and the result is within the
  range, the time value moves by ten seconds as well.
\<close>

lemma setSeconds_same_offset:
  assumes "tza (t + tza t True + 10000) False = tza t True"
      and "\<bar>t + 10000\<bar> \<le> 8640000000000000"
  shows "setSeconds tza t (getSeconds tza t + 10) = Date (t + 10000)"
  using assms by (simp add: setSeconds_plus_10 LocalTime_def TimeClip_def)

subsection \<open>Doubles\<close>

declare ulp_down.simps [simp del]

lemma ulp_down_le: "ulp_down x e \<le> e"
proof (induction x e rule: ulp_down.induct)
  case (1 x e)
  show ?case
  proof (cases "e \<le> - 1074 \<or> 2 powi (e + 52) \<le> x")
    case True
    then show ?thesis by (subst ulp_down.simps) simp
  next
    case False
    with 1 have "ulp_down x (e - 1) \<le> e - 1" by simp
    with False show ?thesis by (subst ulp_down.simps) simp
  qed
qed

lemma ulp_down_reached:
  "- 1074 \<le> e \<Longrightarrow> ulp_down x e = - 1074 \<or> 2 powi (ulp_down x e + 52) \<le> x"
proof (induction x e rule: ulp_down.induct)
  case (1 x e)
  show ?case
  proof (cases "e \<le> - 1074 \<or> 2 powi (e + 52) \<le> x")
    case True
    with "1.prems" show ?thesis by (subst (1 2) ulp_down.simps) auto
  next
    case False
    with 1 have "ulp_down x (e - 1) = - 1074 \<or> 2 powi (ulp_down x (e - 1) + 52) \<le> x"
      by simp
    with False show ?thesis by (subst (1 2) ulp_down.simps) simp
  qed
qed

lemma ulp_down_binade:
  assumes "2 powi (k + 52) \<le> x" and "x < 2 powi (k + 53)" and "- 1074 \<le> k" and "k \<le> e"
  shows "ulp_down x e = k"
  using assms
proof (induction x e rule: ulp_down.induct)
  case (1 x e)
  show ?case
  proof (cases "e = k")
    case True
    with "1.prems" show ?thesis by (subst ulp_down.simps) simp
  next
    case False
    with "1.prems" have lt: "k < e" by simp
    then have "(2::real) powi (k + 53) \<le> 2 powi (e + 52)"
      by (intro power_int_increasing) auto
    with "1.prems" have no: "\<not> (e \<le> - 1074 \<or> 2 powi (e + 52) \<le> x)"
      using lt by auto
    with 1 lt have "ulp_down x (e - 1) = k" by simp
    with no show ?thesis by (subst ulp_down.simps) simp
  qed
qed

lemma ulp_down_subnormal:
  assumes "x < 2 powi (- 1074 + 53)" and "- 1074 \<le> e"
  shows "ulp_down x e = - 1074"
  using assms
proof (induction x e rule: ulp_down.induct)
  case (1 x e)
  show ?case
  proof (cases "e = - 1074")
    case True
    then show ?thesis by (subst ulp_down.simps) simp
  next
    case False
    with "1.prems" have lt: "- 1074 < e" by simp
    then have "(2::real) powi (- 1074 + 53) \<le> 2 powi (e + 52)"
      by (intro power_int_increasing) auto
    with "1.prems" have no: "\<not> (e \<le> - 1074 \<or> 2 powi (e + 52) \<le> x)"
      using lt by auto
    with 1 lt have "ulp_down x (e - 1) = - 1074" by simp
    with no show ?thesis by (subst ulp_down.simps) simp
  qed
qed

lemma ulp_down_ge: "- 1074 \<le> e \<Longrightarrow> - 1074 \<le> ulp_down x e"
proof (induction x e rule: ulp_down.induct)
  case (1 x e)
  show ?case
  proof (cases "e \<le> - 1074 \<or> 2 powi (e + 52) \<le> x")
    case True
    with "1.prems" show ?thesis by (subst ulp_down.simps) simp
  next
    case False
    with 1 have "- 1074 \<le> ulp_down x (e - 1)" by simp
    with False show ?thesis by (subst ulp_down.simps) simp
  qed
qed

lemma ulp_exponent_ge: "- 1074 \<le> ulp_exponent x"
  by (simp add: ulp_exponent_def ulp_down_ge)

lemma ulp_exponent_le:
  assumes "\<bar>x\<bar> < 2 powi (j + 53)" and "- 1074 \<le> j"
  shows "ulp_exponent x \<le> j"
proof -
  have "ulp_down \<bar>x\<bar> 971 = - 1074 \<or> 2 powi (ulp_down \<bar>x\<bar> 971 + 52) \<le> \<bar>x\<bar>"
    by (rule ulp_down_reached) simp
  then show ?thesis
  proof
    assume "ulp_down \<bar>x\<bar> 971 = - 1074"
    with assms(2) show ?thesis by (simp add: ulp_exponent_def)
  next
    assume "2 powi (ulp_down \<bar>x\<bar> 971 + 52) \<le> \<bar>x\<bar>"
    with assms(1) have lt: "(2::real) powi (ulp_exponent x + 52) < 2 powi (j + 53)"
      by (simp add: ulp_exponent_def)
    show ?thesis
    proof (rule ccontr)
      assume "\<not> ulp_exponent x \<le> j"
      then have "j + 53 \<le> ulp_exponent x + 52" by simp
      then have "(2::real) powi (j + 53) \<le> 2 powi (ulp_exponent x + 52)"
        by (intro power_int_increasing) auto
      with lt show False by simp
    qed
  qed
qed

lemma ulp_exponent_binade:
  assumes "2 powi (k + 52) \<le> \<bar>x\<bar>" and "\<bar>x\<bar> < 2 powi (k + 53)" and "- 1074 \<le> k" and "k \<le> 971"
  shows "ulp_exponent x = k"
  unfolding ulp_exponent_def using assms by (rule ulp_down_binade)

lemma round_half_even_of_int: "round_half_even (of_int m) = m"
  by (simp add: round_half_even_def)

lemma round_half_even_ge:
  assumes "of_int N \<le> q"
  shows "N \<le> round_half_even q"
proof -
  from assms have "N \<le> \<lfloor>q\<rfloor>" by (simp add: le_floor_iff)
  then show ?thesis by (simp add: round_half_even_def Let_def)
qed

lemma round_half_even_le:
  assumes "q \<le> of_int N"
  shows "round_half_even q \<le> N"
proof (cases "q = of_int N")
  case True
  then show ?thesis by (simp add: round_half_even_of_int)
next
  case False
  with assms have "q < of_int N" by simp
  then have "\<lfloor>q\<rfloor> < N" by (simp add: floor_less_iff)
  then show ?thesis by (simp add: round_half_even_def Let_def)
qed

lemma round_half_even_down:
  assumes "of_int M \<le> q" and "q < of_int M + 1 / 2"
  shows "round_half_even q = M"
proof -
  from assms have "\<lfloor>q\<rfloor> = M" by (intro floor_unique) auto
  with assms show ?thesis by (simp add: round_half_even_def Let_def)
qed

lemma power_int_2_pos: "0 < (2::real) powi e"
  by simp

lemma rescale:
  assumes "e \<le> k"
  shows "of_int M * (2::real) powi k = of_int (M * 2 ^ nat (k - e)) * 2 powi e"
proof -
  have "(2::real) powi k = 2 powi ((k - e) + e)" by simp
  also have "\<dots> = 2 powi (k - e) * 2 powi e" by (subst power_int_add) auto
  also have "(2::real) powi (k - e) = 2 ^ nat (k - e)"
    using assms by (simp add: power_int_nonneg_exp)
  finally show ?thesis by simp
qed

lemma round_double_ge:
  assumes "of_int N * 2 powi k \<le> x" and "ulp_exponent x \<le> k"
  shows "of_int N * 2 powi k \<le> round_double x"
proof -
  define e where "e = ulp_exponent x"
  define N' where "N' = N * 2 ^ nat (k - e)"
  have y: "of_int N * (2::real) powi k = of_int N' * 2 powi e"
    unfolding N'_def using assms(2) by (intro rescale) (simp add: e_def)
  with assms(1) have "of_int N' * 2 powi e \<le> x" by simp
  then have "of_int N' \<le> x / 2 powi e"
    by (simp add: pos_le_divide_eq power_int_2_pos)
  then have "N' \<le> round_half_even (x / 2 powi e)" by (rule round_half_even_ge)
  then have "of_int N' * 2 powi e \<le> of_int (round_half_even (x / 2 powi e)) * (2::real) powi e"
    by (simp add: power_int_2_pos)
  with y show ?thesis by (simp add: round_double_def e_def)
qed

lemma round_double_le:
  assumes "x \<le> of_int N * 2 powi k" and "ulp_exponent x \<le> k"
  shows "round_double x \<le> of_int N * 2 powi k"
proof -
  define e where "e = ulp_exponent x"
  define N' where "N' = N * 2 ^ nat (k - e)"
  have y: "of_int N * (2::real) powi k = of_int N' * 2 powi e"
    unfolding N'_def using assms(2) by (intro rescale) (simp add: e_def)
  with assms(1) have "x \<le> of_int N' * 2 powi e" by simp
  then have "x / 2 powi e \<le> of_int N'"
    by (simp add: pos_divide_le_eq power_int_2_pos)
  then have "round_half_even (x / 2 powi e) \<le> N'" by (rule round_half_even_le)
  then have "of_int (round_half_even (x / 2 powi e)) * (2::real) powi e \<le> of_int N' * 2 powi e"
    by (simp add: power_int_2_pos)
  with y show ?thesis by (simp add: round_double_def e_def)
qed

lemma round_double_fixed:
  assumes "\<bar>n\<bar> < 2 ^ 53" and "- 1074 \<le> k"
  shows "round_double (of_int n * 2 powi k) = of_int n * 2 powi k"
proof -
  define x :: real where "x = of_int n * 2 powi k"
  have "\<bar>x\<bar> = of_int \<bar>n\<bar> * 2 powi k"
    by (simp add: x_def abs_mult power_int_2_pos less_imp_le)
  also have "\<dots> < 2 ^ 53 * 2 powi k"
  proof -
    from assms(1) have "(of_int \<bar>n\<bar> :: real) < of_int (2 ^ 53)" by (simp only: of_int_less_iff)
    then show ?thesis by (simp add: power_int_2_pos)
  qed
  also have "\<dots> = 2 powi (k + 53)" by (subst power_int_add) auto
  finally have "ulp_exponent x \<le> k" using assms(2) by (rule ulp_exponent_le)
  then have le: "x \<le> of_int n * 2 powi k \<Longrightarrow> round_double x \<le> of_int n * 2 powi k"
    and ge: "of_int n * 2 powi k \<le> x \<Longrightarrow> of_int n * 2 powi k \<le> round_double x"
    by (auto intro: round_double_le round_double_ge)
  from le ge show ?thesis unfolding x_def by force
qed

lemma round_double_of_int: "\<bar>n\<bar> < 2 ^ 53 \<Longrightarrow> round_double (of_int n) = of_int n"
  using round_double_fixed [of n 0] by simp

lemma ulp_down_above:
  assumes "ulp_down x e < e"
  shows "x < 2 powi (ulp_down x e + 53)"
  using assms
proof (induction x e rule: ulp_down.induct)
  case (1 x e)
  show ?case
  proof (cases "e \<le> - 1074 \<or> 2 powi (e + 52) \<le> x")
    case True
    then have "ulp_down x e = e" by (subst ulp_down.simps) simp
    with "1.prems" show ?thesis by simp
  next
    case False
    then have step: "ulp_down x e = ulp_down x (e - 1)" by (subst ulp_down.simps) simp
    show ?thesis
    proof (cases "ulp_down x (e - 1) < e - 1")
      case True
      with 1 False step show ?thesis by simp
    next
      case False
      with ulp_down_le [of x "e - 1"] have "ulp_down x (e - 1) = e - 1" by simp
      with step have eq: "ulp_down x e + 53 = e + 52" by simp
      from \<open>\<not> (e \<le> - 1074 \<or> 2 powi (e + 52) \<le> x)\<close>
      have lt: "x < 2 powi (e + 52)" by simp
      show ?thesis unfolding eq by (rule lt)
    qed
  qed
qed

lemma double_below_one:
  assumes "is_double r" and "0 \<le> r" and "r < 1"
  shows "r \<le> 1 - 2 powi (- 53)"
proof -
  define e where "e = ulp_exponent r"
  define n where "n = round_half_even (r / 2 powi e)"
  have r: "r = of_int n * 2 powi e"
    using assms(1) by (simp add: is_double_def round_double_def n_def e_def)
  have "\<bar>r\<bar> < 2 powi (- 53 + 53)" using assms by simp
  then have e53: "e \<le> - 53" unfolding e_def by (rule ulp_exponent_le) simp
  have "ulp_down \<bar>r\<bar> 971 < 971" using e53 by (simp add: e_def ulp_exponent_def)
  then have "\<bar>r\<bar> < 2 powi (ulp_down \<bar>r\<bar> 971 + 53)" by (rule ulp_down_above)
  then have "r < 2 powi (e + 53)" using assms(2) by (simp add: e_def ulp_exponent_def)
  also have "\<dots> = 2 ^ 53 * 2 powi e" by (subst power_int_add) auto
  finally have "of_int n * 2 powi e < (2 ^ 53 :: real) * 2 powi e" using r by simp
  then have "(of_int n :: real) < 2 ^ 53" by (simp add: power_int_2_pos)
  then have "(of_int n :: real) < of_int (2 ^ 53)" by simp
  then have "n < 2 ^ 53" by (simp only: of_int_less_iff)
  then have "n \<le> 2 ^ 53 - 1" by simp
  then have "(of_int n :: real) \<le> of_int (2 ^ 53 - 1)" by (simp only: of_int_le_iff)
  then have n: "(of_int n :: real) \<le> 2 ^ 53 - 1" by simp
  have "(2::real) powi e \<le> 2 powi (- 53)"
    using e53 by (intro power_int_increasing) auto
  have "r = of_int n * 2 powi e" by (rule r)
  also have "\<dots> \<le> (2 ^ 53 - 1) * 2 powi e"
    using n by (simp add: power_int_2_pos)
  also have "\<dots> \<le> (2 ^ 53 - 1) * 2 powi (- 53)"
    using \<open>(2::real) powi e \<le> 2 powi (- 53)\<close> by (intro mult_left_mono) auto
  also have "\<dots> = 1 - 2 powi (- 53)" by (simp add: algebra_simps)
  finally show ?thesis .
qed

lemma product_rounds_below:
  assumes "0 \<le> p" and "p \<le> 90000 - 90000 * 2 powi (- 53)"
  shows "0 \<le> round_double p \<and> round_double p \<le> 90000 - 2 powi (- 36)"
proof -
  have small: "\<bar>p\<bar> < 2 powi (- 36 + 53)" using assms by simp
  then have ulp: "ulp_exponent p \<le> - 36" by (rule ulp_exponent_le) simp
  have "of_int 0 * 2 powi (- 36) \<le> round_double p"
    using assms(1) ulp by (intro round_double_ge) auto
  then have lo: "0 \<le> round_double p" by simp
  have Z: "90000 - 2 powi (- 36) = (of_int (90000 * 2 ^ 36 - 1) :: real) * 2 powi (- 36)"
    by simp
  have hi: "round_double p \<le> 90000 - 2 powi (- 36)"
  proof (cases "p \<le> 90000 - 2 powi (- 36)")
    case True
    then have "p \<le> (of_int (90000 * 2 ^ 36 - 1) :: real) * 2 powi (- 36)" by (simp only: Z)
    then have "round_double p \<le> (of_int (90000 * 2 ^ 36 - 1) :: real) * 2 powi (- 36)"
      using ulp by (rule round_double_le)
    then show ?thesis by (simp only: Z)
  next
    case False
    then have above: "90000 - 2 powi (- 36) < p" by simp
    then have "2 powi (- 36 + 52) \<le> \<bar>p\<bar>" by simp
    then have e: "ulp_exponent p = - 36" using small by (rule ulp_exponent_binade) simp_all
    have q_lo: "of_int (90000 * 2 ^ 36 - 1) \<le> p / 2 powi (- 36)"
      using above by simp
    have q_hi: "p / 2 powi (- 36) < of_int (90000 * 2 ^ 36 - 1) + 1 / 2"
      using assms(2) by simp
    from q_lo q_hi have "round_half_even (p / 2 powi (- 36)) = 90000 * 2 ^ 36 - 1"
      by (rule round_half_even_down)
    then have "round_double p = (of_int (90000 * 2 ^ 36 - 1) :: real) * 2 powi (- 36)"
      by (simp only: round_double_def e)
    then show ?thesis by (simp only: Z)
  qed
  from lo hi show ?thesis ..
qed

text \<open>
  For every double that \<open>Math.random()\<close> can return, the code drawn has five digits,
  the two roundings included.
\<close>

lemma drawn_code_five_digits:
  assumes "is_double r" and "0 \<le> r" and "r < 1"
  shows "10000 \<le> \<lfloor>round_double (10000 + round_double (r * 90000))\<rfloor> \<and>
         \<lfloor>round_double (10000 + round_double (r * 90000))\<rfloor> \<le> 99999"
proof -
  from assms have "r \<le> 1 - 2 powi (- 53)" by (rule double_below_one)
  then have "r * 90000 \<le> (1 - 2 powi (- 53)) * 90000" by (intro mult_right_mono) auto
  then have "r * 90000 \<le> 90000 - 90000 * 2 powi (- 53)" by (simp add: algebra_simps)
  moreover have "0 \<le> r * 90000" using assms(2) by simp
  ultimately have p: "0 \<le> round_double (r * 90000)"
    "round_double (r * 90000) \<le> 90000 - 2 powi (- 36)"
    using product_rounds_below by blast+
  define s where "s = 10000 + round_double (r * 90000)"
  from p have s: "10000 \<le> s" "s \<le> 100000 - 2 powi (- 36)" by (simp_all add: s_def)
  then have "\<bar>s\<bar> < 2 powi (- 36 + 53)" by simp
  then have ulp: "ulp_exponent s \<le> - 36" by (rule ulp_exponent_le) simp
  have "of_int 10000 * 2 powi 0 \<le> round_double s"
    using s(1) ulp by (intro round_double_ge) auto
  then have lo: "10000 \<le> round_double s" by simp
  have Y: "100000 - 2 powi (- 36) = (of_int (100000 * 2 ^ 36 - 1) :: real) * 2 powi (- 36)"
    by simp
  from s(2) have "s \<le> (of_int (100000 * 2 ^ 36 - 1) :: real) * 2 powi (- 36)" by (simp only: Y)
  then have "round_double s \<le> (of_int (100000 * 2 ^ 36 - 1) :: real) * 2 powi (- 36)"
    using ulp by (rule round_double_le)
  then have "round_double s \<le> 100000 - 2 powi (- 36)" by (simp only: Y)
  then have hi: "round_double s < 100000" by simp
  from lo have "10000 \<le> \<lfloor>round_double s\<rfloor>" by (simp add: le_floor_iff)
  moreover from hi have "\<lfloor>round_double s\<rfloor> < 100000" by (simp add: floor_less_iff)
  ultimately show ?thesis by (simp add: s_def)
qed

lemma half_is_double: "is_double (1 / 2)"
  using round_double_fixed [of 1 "- 1"] by (simp add: is_double_def)

lemma drawn_code_half: "\<lfloor>round_double (10000 + round_double (1 / 2 * 90000))\<rfloor> = 55000"
proof -
  have "round_double (1 / 2 * 90000) = 45000"
    using round_double_of_int [of 45000] by simp
  moreover have "round_double (10000 + 45000) = 55000"
    using round_double_of_int [of 55000] by simp
  ultimately show ?thesis by simp
qed

lemma draw_is_double: "is_double (475179800683447 / 2 ^ 53)"
  using round_double_fixed [of 475179800683447 "- 53"] by (simp add: is_double_def)

text \<open>
  The rounding of the product shows: at this draw the code is 14748, where the floor of
  the exact sum is 14747.
\<close>

lemma drawn_code_rounds_product:
  "\<lfloor>round_double (10000 + round_double (475179800683447 / 2 ^ 53 * 90000))\<rfloor> = 14748 \<and>
   \<lfloor>10000 + (475179800683447 / 2 ^ 53 :: real) * 90000\<rfloor> = 14747"
proof -
  define p :: real where "p = 475179800683447 / 2 ^ 53 * 90000"
  have "2 powi (- 40 + 52) \<le> \<bar>p\<bar>" "\<bar>p\<bar> < 2 powi (- 40 + 53)" by (simp_all add: p_def)
  then have e: "ulp_exponent p = - 40" by (rule ulp_exponent_binade) simp_all
  have "of_int 5220481208680448 - 1 / 2 < p / 2 powi (- 40)" "p / 2 powi (- 40) < of_int 5220481208680448"
    by (simp_all add: p_def)
  then have "\<lfloor>p / 2 powi (- 40)\<rfloor> = 5220481208680447 \<and>
      1 / 2 < p / 2 powi (- 40) - of_int 5220481208680447"
    by (auto intro!: floor_unique)
  then have "round_half_even (p / 2 powi (- 40)) = 5220481208680448"
    by (simp add: round_half_even_def Let_def)
  then have "round_double p = 4748" by (simp add: round_double_def e)
  moreover have "round_double (10000 + 4748) = 14748"
    using round_double_of_int [of 14748] by simp
  ultimately have
    "\<lfloor>round_double (10000 + round_double (475179800683447 / 2 ^ 53 * 90000))\<rfloor> = 14748"
    by (simp add: p_def)
  moreover have "\<lfloor>10000 + (475179800683447 / 2 ^ 53 :: real) * 90000\<rfloor> = 14747"
    by (intro floor_unique) simp_all
  ultimately show ?thesis ..
qed

lemma random_code_five_digits:
  assumes "is_double (Math_random e)" and "0 \<le> Math_random e" and "Math_random e < 1"
  shows "10000 \<le> random_code e \<and> random_code e \<le> 99999"
  unfolding random_code_def using assms by (rule drawn_code_five_digits)

subsection \<open>Strings\<close>

lemma test_upper_iff: "test_upper p \<longleftrightarrow> (\<exists>c \<in> set p. 65 \<le> c \<and> c \<le> 90)"
  by (simp add: test_upper_def list_ex_iff)

lemma test_digit_iff: "test_digit p \<longleftrightarrow> (\<exists>c \<in> set p. 48 \<le> c \<and> c \<le> 57)"
  by (simp add: test_digit_def list_ex_iff)

lemmas parseInt_defs =
  parseInt_def join_def is_space_def is_radix_digit_def digit_value_def digits_value_def Let_def

text \<open>
  What \<open>parseInt\<close> reads from submissions: the five digits of a code; the same
  number from an array whose last element has a fraction, or an exponent in its string
  form; and nothing from an empty array.
\<close>

lemma parseInt_five_digits: "parseInt (join [''1'', ''2'', ''3'', ''4'', ''5'']) = Some 12345"
  using round_double_of_int [of 12345] by (simp add: parseInt_defs)

lemma parseInt_fraction: "parseInt (join [''1'', ''2'', ''3'', ''4'', ''5.9'']) = Some 12345"
  using round_double_of_int [of 12345] by (simp add: parseInt_defs)

lemma parseInt_exponent: "parseInt (join [''1234'', ''5e+21'']) = Some 12345"
  using round_double_of_int [of 12345] by (simp add: parseInt_defs)

lemma parseInt_empty: "parseInt (join []) = None"
  by (simp add: parseInt_defs)

lemma parseInt_hexadecimal: "parseInt ''0x1F'' = Some 31"
  using round_double_of_int [of 31] by (simp add: parseInt_defs)

section \<open>Properties of \<open>createSession\<close>\<close>

lemmas sample_defs = sample_env_def sample_world_def sample_db_def sample_user_def

lemmas createSession_defs =
  createSession_def generateToken_def randomBytes_def Date_now_def Let_def

text \<open>The sample call, evaluated.\<close>

lemma createSession_sample:
  "createSession sample_env sample_world ''u1'' =
     (Inr \<lparr> status = ''success'', message = Some ''Successfully created session'',
            userId = None, session = Some ''signed:s1'' \<rparr>,
      sample_world
        \<lparr> db := sample_db\<lparr>sessions :=
             [\<lparr> session_id = ''s1'', session_userId = ''u1'',
                session_accessToken =
                  Unresolved (Promise ''hmac(key,000102030405060708090a0b0c0d0e0f)''),
                session_refreshToken =
                  Unresolved (Promise ''hmac(key,101112131415161718191a1b1c1d1e1f)''),
                session_expiresAt = Date 1010000, session_createdAt = 1000000,
                session_lastActive = 1000000 \<rparr>]\<rparr>,
          cookieStore :=
            [''session'' \<mapsto>
               \<lparr> cookie_value = ''signed:s1'', cookie_expires = Some (Date 1010000),
                 cookie_maxAge = None, cookie_httpOnly = Some True, cookie_secure = Some True,
                 cookie_sameSite = Some ''strict'', cookie_path = Some ''/'' \<rparr>],
          clock_reads := 1,
          entropy_used := 32 \<rparr>)"
  by (simp add: createSession_defs sample_defs setSeconds_same_offset toString_hex_def
      hex_digit_def upt_rec)

text \<open>
  What a successful \<open>createSession\<close> stores as expiry, in the row and in the cookie:
  the creation time with its seconds field moved ten ahead.
\<close>

lemma createSession_expiry:
  assumes "createSession e w uid = (Inr r, w')" and "status r = ''success''"
  shows "\<exists>row ck. sessions (db w') = sessions (db w) @ [row] \<and>
           session_userId row = uid \<and>
           session_createdAt row = clock e (clock_reads w) \<and>
           session_expiresAt row =
             setSeconds (LocalTZA e) (session_createdAt row)
               (getSeconds (LocalTZA e) (session_createdAt row) + 10) \<and>
           cookieStore w' ''session'' = Some ck \<and>
           cookie_expires ck = Some (session_expiresAt row)"
  using assms
  by (auto simp add: createSession_defs split: if_splits sum.splits)

text \<open>
  Where the offset of the zone is the same ten seconds later, as at any moment in a zone
  without daylight saving, that is the creation time plus 10000 ms.
\<close>

lemma createSession_expiry_same_offset:
  assumes "createSession e w uid = (Inr r, w')" and "status r = ''success''"
      and "LocalTZA e (clock e (clock_reads w) + LocalTZA e (clock e (clock_reads w)) True + 10000)
             False = LocalTZA e (clock e (clock_reads w)) True"
      and "\<bar>clock e (clock_reads w) + 10000\<bar> \<le> 8640000000000000"
  shows "\<exists>row ck. sessions (db w') = sessions (db w) @ [row] \<and>
           session_createdAt row = clock e (clock_reads w) \<and>
           session_expiresAt row = Date (session_createdAt row + 10000) \<and>
           cookieStore w' ''session'' = Some ck \<and>
           cookie_expires ck = Some (session_expiresAt row)"
proof -
  from createSession_expiry [OF assms(1,2)] obtain row ck where
    r: "sessions (db w') = sessions (db w) @ [row]"
       "session_createdAt row = clock e (clock_reads w)"
       "session_expiresAt row =
          setSeconds (LocalTZA e) (session_createdAt row)
            (getSeconds (LocalTZA e) (session_createdAt row) + 10)"
       "cookieStore w' ''session'' = Some ck"
       "cookie_expires ck = Some (session_expiresAt row)"
    by blast
  from r(2,3) assms(3,4) have "session_expiresAt row = Date (session_createdAt row + 10000)"
    by (simp add: setSeconds_same_offset)
  with r show ?thesis by blast
qed

text \<open>
  Claim C5 fails on the code. On a server in the zone of New York, a session created
  five seconds before the clocks go back on 3 November 2024 expires 3610 seconds after
  its creation, and one created half an hour later, in the repeated hour, expires 3590
  seconds before its creation: \<open>setSeconds\<close> moves the local time by ten seconds, and
  the way back to UTC adds or takes the hour of the change. In both calls the cookie
  expires with the row.
\<close>

theorem createSession_expiry_across_clock_change:
  "fst (createSession before_change_env sample_world ''u1'') =
     Inr \<lparr> status = ''success'', message = Some ''Successfully created session'',
           userId = None, session = Some ''signed:s1'' \<rparr> \<and>
   map session_createdAt (sessions (db (snd (createSession before_change_env sample_world ''u1'')))) =
     [1730613595000] \<and>
   map session_expiresAt (sessions (db (snd (createSession before_change_env sample_world ''u1'')))) =
     [Date (1730613595000 + 3610000)] \<and>
   map session_expiresAt (sessions (db (snd (createSession before_change_env sample_world ''u1'')))) \<noteq>
     [Date (1730613595000 + 10000)] \<and>
   map_option cookie_expires
     (cookieStore (snd (createSession before_change_env sample_world ''u1'')) ''session'') =
     Some (Some (Date (1730613595000 + 3610000))) \<and>
   map session_createdAt (sessions (db (snd (createSession repeated_hour_env sample_world ''u1'')))) =
     [1730615400000] \<and>
   map session_expiresAt (sessions (db (snd (createSession repeated_hour_env sample_world ''u1'')))) =
     [Date (1730615400000 - 3590000)]"
  by (simp add: createSession_defs before_change_env_def repeated_hour_env_def sample_defs
      setSeconds_plus_10 LocalTime_def TimeClip_def new_york_2024_def)

text \<open>
  What a successful \<open>createSession\<close> stores as tokens, in the row and in the payload it
  signs for the cookie: the two promises that \<open>generateToken\<close> returned, each of the
  digest of 16 fresh random bytes; never the digests themselves.
\<close>

lemma createSession_tokens:
  assumes "createSession e w uid = (Inr r, w')" and "status r = ''success''"
  shows "\<exists>row c ck. sessions (db w') = sessions (db w) @ [row] \<and>
           session_accessToken row = Unresolved (Promise (token_digest e (entropy_used w))) \<and>
           session_refreshToken row = Unresolved (Promise (token_digest e (entropy_used w + 16))) \<and>
           signToken e \<lparr> payload_id = session_id row, payload_userId = uid,
                          payload_accessToken = session_accessToken row,
                          payload_refreshToken = session_refreshToken row,
                          payload_expiresAt = session_expiresAt row \<rparr> = Inr c \<and>
           session r = Some c \<and>
           cookieStore w' ''session'' = Some ck \<and> cookie_value ck = c"
  using assms
  by (auto simp add: createSession_defs token_digest_def add.commute split: if_splits sum.splits)

text \<open>
  Claim C2 fails on the code. For the sample user the call succeeds, and both tokens of
  the stored row are unresolved promises: neither is the text of the digest that the
  promise would resolve to.
\<close>

theorem createSession_stores_promises:
  "fst (createSession sample_env sample_world ''u1'') =
     Inr \<lparr> status = ''success'', message = Some ''Successfully created session'',
           userId = None, session = Some ''signed:s1'' \<rparr> \<and>
   map session_accessToken (sessions (db (snd (createSession sample_env sample_world ''u1'')))) =
     [Unresolved (Promise ''hmac(key,000102030405060708090a0b0c0d0e0f)'')] \<and>
   map session_refreshToken (sessions (db (snd (createSession sample_env sample_world ''u1'')))) =
     [Unresolved (Promise ''hmac(key,101112131415161718191a1b1c1d1e1f)'')] \<and>
   map session_accessToken (sessions (db (snd (createSession sample_env sample_world ''u1'')))) \<noteq>
     [Text ''hmac(key,000102030405060708090a0b0c0d0e0f)''] \<and>
   map session_refreshToken (sessions (db (snd (createSession sample_env sample_world ''u1'')))) \<noteq>
     [Text ''hmac(key,101112131415161718191a1b1c1d1e1f)'']"
  by (simp add: createSession_sample)

section \<open>Properties of \<open>AuthManager\<close>\<close>

lemmas storage_down_defs = storage_down_env_def sample_defs

text \<open>
  Claim C8. \<open>logoutUser\<close> leaves the database as it is, rows of the sessions table
  included, and consumes neither clock nor randomness. It returns what \<open>redirect\<close> does
  with the logout destination; when the store holds a \<open>session\<close> cookie, that cookie
  is overwritten by an empty one of maximal age 0, and nothing else changes.
\<close>

theorem logoutUser_keeps_storage:
  "db (snd (logoutUser e w)) = db w \<and>
   sessions (db (snd (logoutUser e w))) = sessions (db w) \<and>
   fst (logoutUser e w) = redirect e (defaultLogoutRedirect e) \<and>
   snd (logoutUser e w) =
     (if cookieStore w ''session'' = None then w
      else w\<lparr>cookieStore := (cookieStore w)(''session'' \<mapsto>
             \<lparr> cookie_value = '''', cookie_expires = None, cookie_maxAge = Some 0,
               cookie_httpOnly = None, cookie_secure = None, cookie_sameSite = None,
               cookie_path = Some ''/'' \<rparr>)\<rparr>)"
  by (simp add: logoutUser_def split: option.split)

text \<open>
  The logged-in sample user logs out: the cookie is emptied, the tables stay, and the
  framework's \<open>redirect\<close> leaves with its signal for the logout destination.
\<close>

lemma logoutUser_sample:
  "fst (logoutUser sample_env logged_in_world) = Inl (NEXT_REDIRECT ''/auth/login'') \<and>
   db (snd (logoutUser sample_env logged_in_world)) = db logged_in_world \<and>
   cookieStore (snd (logoutUser sample_env logged_in_world)) ''session'' =
     Some \<lparr> cookie_value = '''', cookie_expires = None, cookie_maxAge = Some 0,
            cookie_httpOnly = None, cookie_secure = None, cookie_sameSite = None,
            cookie_path = Some ''/'' \<rparr>"
  by (simp add: logoutUser_def logged_in_world_def verified_world_def sample_defs)

text \<open>
  The policy as \<open>registerUser\<close> and \<open>authenticateUser\<close> test it is the policy in
  words.
\<close>

lemma password_policy_error_tests:
  "password_policy_error p =
     (if length p < 8 then Some ''Password must be at least 8 characters long''
      else if \<not> test_upper p then Some ''Password must have at least one uppercase character''
      else if \<not> test_digit p then Some ''Password must have at least one number''
      else None)"
  by (auto simp add: password_policy_error_def test_upper_iff test_digit_iff)

lemma registerUser_policy:
  assumes "password_policy_error password = Some m"
  shows "registerUser e w name' email' password confirmPassword = (Inr (error_reply m), w)"
  using assms by (auto simp add: registerUser_def password_policy_error_tests split: if_splits)

text \<open>
  Claim C10. A password that misses the registration policy (8 characters, an upper-case
  letter, a digit) makes \<open>authenticateUser\<close> return the error of the first
  requirement missed, with the state untouched, whatever the database holds, whether or
  not its calls would fail and whatever the hasher would say of the password: the answer
  is neither a login nor the incorrect-password error.
\<close>

theorem authenticateUser_policy_first:
  assumes "password_policy_error password = Some m"
  shows "authenticateUser e w email' password = (Inr (error_reply m), w) \<and>
         m \<in> {''Password must be at least 8 characters long'',
              ''Password must have at least one uppercase character'',
              ''Password must have at least one number''} \<and>
         fst (authenticateUser e w email' password) \<noteq> Inr (success_reply ''Logged in successfully'') \<and>
         fst (authenticateUser e w email' password) \<noteq> Inr (error_reply ''Incorrect password'')"
proof -
  have m: "m \<in> {''Password must be at least 8 characters long'',
              ''Password must have at least one uppercase character'',
              ''Password must have at least one number''}"
    using assms by (auto simp add: password_policy_error_tests split: if_splits)
  have run: "authenticateUser e w email' password = (Inr (error_reply m), w)"
    using assms by (auto simp add: authenticateUser_def password_policy_error_tests split: if_splits)
  from m have "m \<noteq> ''Incorrect password''" by auto
  with m run show ?thesis by simp
qed

text \<open>
  The stored password of the sample account is \<open>abcdef12\<close>, which the hasher accepts;
  it has no upper-case letter, and the login is refused with the policy's message.
\<close>

theorem authenticateUser_policy_first_witness:
  "password_policy_error (utf16 ''abcdef12'') =
     Some ''Password must have at least one uppercase character'' \<and>
   comparePassword sample_env (utf16 ''abcdef12'') (user_password sample_user) = Inr True \<and>
   authenticateUser sample_env verified_world ''a@x.com'' (utf16 ''abcdef12'') =
     (Inr (error_reply ''Password must have at least one uppercase character''), verified_world)"
proof -
  have p: "password_policy_error (utf16 ''abcdef12'') =
      Some ''Password must have at least one uppercase character''"
    by (simp add: password_policy_error_def utf16_def)
  have c: "comparePassword sample_env (utf16 ''abcdef12'') (user_password sample_user) = Inr True"
    by (simp add: sample_defs)
  from authenticateUser_policy_first [OF p, of sample_env verified_world "''a@x.com''"]
  show ?thesis using p c by simp
qed

text \<open>With a password that passes the policy the same account logs in.\<close>

lemma authenticateUser_sample_login:
  "fst (authenticateUser sample_env verified_world ''a@x.com'' (utf16 ''Abcdef12'')) =
     Inr (success_reply ''Logged in successfully'')"
  by (simp add: authenticateUser_def authenticateUser_try_def catch_all_def createSession_defs
      verified_world_def sample_defs utf16_def test_upper_def test_digit_def)

text \<open>
  Claim C7 fails on the code. With a storage whose calls reject,
  \<open>resendUserEmailVerification\<close> throws the storage failure to its caller: its
  database calls stand outside any \<open>try\<close> block. The sibling actions
  \<open>authenticateUser\<close> and \<open>verifyUserEmail\<close> turn the same failure into an error
  object.
\<close>

theorem resend_throws_storage_failure:
  "fst (resendUserEmailVerification storage_down_env sample_world ''u1'') = Inl StorageFailure \<and>
   fst (authenticateUser storage_down_env sample_world ''a@x.com'' (utf16 ''Abcdef12'')) =
     Inr (error_reply ''Unable to login to account'') \<and>
   fst (verifyUserEmail storage_down_env sample_world ''u1'' [''1'', ''2'', ''3'', ''4'', ''5'']) =
     Inr (error_reply ''Unable to verify email'')"
  by (simp add: resendUserEmailVerification_def authenticateUser_def authenticateUser_try_def
      verifyUserEmail_def verifyUserEmail_try_def catch_all_def storage_down_defs utf16_def
      test_upper_def test_digit_def)

subsection \<open>\<open>resendUserEmailVerification\<close>\<close>

lemma resend_throttled:
  assumes "filter (\<lambda>u. user_id u = uid) (users (db w)) = user # rest"
      and "user_emailVerified user = None"
      and "latest_verification (db w) uid = v # rest'"
      and "\<not> db_throws e Resend_SelectUser"
      and "\<not> db_throws e Resend_SelectVerification"
      and "clock e (clock_reads w) + 5 * 60 * 1000 < verification_expiresAt v"
  shows "resendUserEmailVerification e w uid =
      (Inr (error_reply throttle_message), w\<lparr>clock_reads := Suc (clock_reads w)\<rparr>)"
  using assms by (simp add: resendUserEmailVerification_def Date_now_def)

lemma resend_not_throttled:
  assumes "filter (\<lambda>u. user_id u = uid) (users (db w)) = user # rest"
      and "user_emailVerified user = None"
      and "latest_verification (db w) uid = v # rest'"
      and "\<not> db_throws e Resend_SelectUser"
      and "\<not> db_throws e Resend_SelectVerification"
      and "\<not> db_throws e Resend_UpdateVerification"
      and "\<not> clock e (clock_reads w) + 5 * 60 * 1000 < verification_expiresAt v"
  shows "snd (resendUserEmailVerification e w uid) =
           w\<lparr>clock_reads := Suc (Suc (clock_reads w)),
              db := update_verification (db w) uid (random_code e)
                      (clock e (Suc (clock_reads w)) + 60 * 60 * 1000)\<rparr> \<and>
         fst (resendUserEmailVerification e w uid) \<in>
           {Inr (error_reply ''Unable to send verification email''),
            Inr (success_reply ''Verification email sent'')}"
proof (cases "emails_send e (verification_mail (user_email user) (random_code e))")
  case (Inl err)
  with assms show ?thesis
    by (simp add: resendUserEmailVerification_def Date_now_def Let_def)
next
  case (Inr answer)
  with assms show ?thesis
    by (cases answer) (simp_all add: resendUserEmailVerification_def Date_now_def Let_def)
qed

lemma verifications_update_verification:
  "verifications (update_verification d uid c t) =
     map (\<lambda>v. if verification_userId v = uid
               then v\<lparr>verification_code := c, verification_expiresAt := t\<rparr> else v)
       (verifications d)"
  by (simp add: update_verification_def)

lemma update_verification_rows:
  "\<forall>x \<in> set (verifications (update_verification d uid c t)).
     verification_userId x = uid \<longrightarrow> verification_code x = c \<and> verification_expiresAt x = t"
proof (intro ballI impI)
  fix x
  assume m: "x \<in> set (verifications (update_verification d uid c t))"
    and u: "verification_userId x = uid"
  from m [unfolded verifications_update_verification set_map] obtain y where
    x: "x = (if verification_userId y = uid
             then y\<lparr>verification_code := c, verification_expiresAt := t\<rparr> else y)"
    by (rule imageE)
  show "verification_code x = c \<and> verification_expiresAt x = t"
  proof (cases "verification_userId y = uid")
    case True
    with x show ?thesis by simp
  next
    case False
    with x u show ?thesis by simp
  qed
qed

text \<open>
  Claim C4. For a user who exists and is not verified and for whom a code \<open>v\<close> is
  stored, with a storage whose calls complete and a draw of \<open>Math.random()\<close> that is
  a double from 0 up to but excluding 1: \<open>resendUserEmailVerification\<close> answers with
  the throttle error exactly when the clock reading plus 5 minutes is strictly before
  the expiry of \<open>v\<close>, and then the database is unchanged. Otherwise the stored rows
  of the user are updated to the code computed from the draw,
  \<open>floor(10000 + draw * 90000)\<close> in double arithmetic, which lies between 10000 and
  99999, and to an expiry of exactly one hour after the next clock reading.
\<close>

theorem resend_throttle:
  assumes "filter (\<lambda>u. user_id u = uid) (users (db w)) = user # rest"
      and "user_emailVerified user = None"
      and "latest_verification (db w) uid = v # rest'"
      and "\<not> db_throws e Resend_SelectUser"
      and "\<not> db_throws e Resend_SelectVerification"
      and "\<not> db_throws e Resend_UpdateVerification"
      and "is_double (Math_random e)" and "0 \<le> Math_random e" and "Math_random e < 1"
  shows "(fst (resendUserEmailVerification e w uid) = Inr (error_reply throttle_message) \<longleftrightarrow>
            clock e (clock_reads w) + 5 * 60 * 1000 < verification_expiresAt v) \<and>
         (clock e (clock_reads w) + 5 * 60 * 1000 < verification_expiresAt v \<longrightarrow>
            db (snd (resendUserEmailVerification e w uid)) = db w) \<and>
         (\<not> clock e (clock_reads w) + 5 * 60 * 1000 < verification_expiresAt v \<longrightarrow>
            10000 \<le> \<lfloor>round_double (10000 + round_double (Math_random e * 90000))\<rfloor> \<and>
            \<lfloor>round_double (10000 + round_double (Math_random e * 90000))\<rfloor> \<le> 99999 \<and>
            db (snd (resendUserEmailVerification e w uid)) =
              update_verification (db w) uid
                \<lfloor>round_double (10000 + round_double (Math_random e * 90000))\<rfloor>
                (clock e (Suc (clock_reads w)) + 60 * 60 * 1000) \<and>
            (\<forall>x \<in> set (verifications (db (snd (resendUserEmailVerification e w uid)))).
               verification_userId x = uid \<longrightarrow>
                 verification_code x =
                   \<lfloor>round_double (10000 + round_double (Math_random e * 90000))\<rfloor> \<and>
                 verification_expiresAt x = clock e (Suc (clock_reads w)) + 60 * 60 * 1000))"
proof (cases "clock e (clock_reads w) + 5 * 60 * 1000 < verification_expiresAt v")
  case True
  note run = resend_throttled [OF assms(1-5) True]
  have "fst (resendUserEmailVerification e w uid) = Inr (error_reply throttle_message)"
    by (simp add: run)
  moreover have "db (snd (resendUserEmailVerification e w uid)) = db w"
    by (simp add: run)
  ultimately show ?thesis using True by blast
next
  case False
  have msg: "throttle_message \<noteq> ''Unable to send verification email''"
    "throttle_message \<noteq> ''Verification email sent''"
    by (simp_all add: throttle_message_def)
  note run = resend_not_throttled [OF assms(1-6) False]
  from run have "fst (resendUserEmailVerification e w uid) \<in>
      {Inr (error_reply ''Unable to send verification email''),
       Inr (success_reply ''Verification email sent'')}"
    by (rule conjunct2)
  with msg have other: "fst (resendUserEmailVerification e w uid) \<noteq>
      Inr (error_reply throttle_message)"
    by auto
  from run have "snd (resendUserEmailVerification e w uid) =
      w\<lparr>clock_reads := Suc (Suc (clock_reads w)),
         db := update_verification (db w) uid (random_code e)
                 (clock e (Suc (clock_reads w)) + 60 * 60 * 1000)\<rparr>"
    by (rule conjunct1)
  then have state: "db (snd (resendUserEmailVerification e w uid)) =
      update_verification (db w) uid (random_code e)
        (clock e (Suc (clock_reads w)) + 60 * 60 * 1000)"
    by simp
  have rows: "\<forall>x \<in> set (verifications (db (snd (resendUserEmailVerification e w uid)))).
      verification_userId x = uid \<longrightarrow>
        verification_code x = random_code e \<and>
        verification_expiresAt x = clock e (Suc (clock_reads w)) + 60 * 60 * 1000"
    unfolding state by (rule update_verification_rows)
  note bounds = random_code_five_digits [OF assms(7-9)]
  from False other state rows bounds show ?thesis
    unfolding random_code_def by blast
qed

text \<open>
  The sample user asks again 200 seconds before the stored code expires, and the draw is
  one half: no throttle, and the stored code becomes 55000 with an expiry one hour after
  the second reading of the clock.
\<close>

theorem resend_throttle_witness:
  "filter (\<lambda>u. user_id u = ''u1'') (users (db sample_world)) = [sample_user] \<and>
   user_emailVerified sample_user = None \<and>
   latest_verification (db sample_world) ''u1'' =
     [\<lparr> verification_userId = ''u1'', verification_code = 12345,
        verification_expiresAt = 1200000 \<rparr>] \<and>
   is_double (Math_random sample_env) \<and>
   Math_random sample_env = 1 / 2 \<and>
   fst (resendUserEmailVerification sample_env sample_world ''u1'') \<noteq>
     Inr (error_reply throttle_message) \<and>
   verifications (db (snd (resendUserEmailVerification sample_env sample_world ''u1''))) =
     [\<lparr> verification_userId = ''u1'', verification_code = 55000,
        verification_expiresAt = 4600001 \<rparr>]"
proof -
  have u: "filter (\<lambda>u. user_id u = ''u1'') (users (db sample_world)) = sample_user # []"
    by (simp add: sample_defs)
  have n: "user_emailVerified sample_user = None"
    by (simp add: sample_defs)
  have l: "latest_verification (db sample_world) ''u1'' =
      \<lparr> verification_userId = ''u1'', verification_code = 12345,
        verification_expiresAt = 1200000 \<rparr> # []"
    by (simp add: latest_verification_def sample_defs)
  have f: "\<not> db_throws sample_env Resend_SelectUser"
    "\<not> db_throws sample_env Resend_SelectVerification"
    "\<not> db_throws sample_env Resend_UpdateVerification"
    by (simp_all add: sample_defs)
  have m: "Math_random sample_env = 1 / 2"
    by (simp add: sample_defs)
  have r: "is_double (Math_random sample_env)" "0 \<le> Math_random sample_env"
    "Math_random sample_env < 1"
    by (simp_all add: m half_is_double)
  have c: "\<lfloor>round_double (10000 + round_double (Math_random sample_env * 90000))\<rfloor> = 55000"
    unfolding m by (rule drawn_code_half)
  have t: "clock sample_env (clock_reads sample_world) = 1000000"
    "clock sample_env (Suc (clock_reads sample_world)) = 1000001"
    by (simp_all add: sample_defs)
  have d: "verifications (update_verification (db sample_world) ''u1'' 55000 4600001) =
        [\<lparr> verification_userId = ''u1'', verification_code = 55000,
           verification_expiresAt = 4600001 \<rparr>]"
    by (simp add: update_verification_def sample_defs)
  note T = resend_throttle [OF u n l f r]
  have nt: "\<not> clock sample_env (clock_reads sample_world) + 5 * 60 * 1000 <
      verification_expiresAt \<lparr> verification_userId = ''u1'', verification_code = 12345,
        verification_expiresAt = 1200000 \<rparr>"
    by (simp add: t)
  from T nt have other: "fst (resendUserEmailVerification sample_env sample_world ''u1'') \<noteq>
      Inr (error_reply throttle_message)"
    by blast
  from T nt have "db (snd (resendUserEmailVerification sample_env sample_world ''u1'')) =
      update_verification (db sample_world) ''u1''
        \<lfloor>round_double (10000 + round_double (Math_random sample_env * 90000))\<rfloor>
        (clock sample_env (Suc (clock_reads sample_world)) + 60 * 60 * 1000)"
    by blast
  then have "db (snd (resendUserEmailVerification sample_env sample_world ''u1'')) =
      update_verification (db sample_world) ''u1'' 55000 4600001"
    by (simp only: c t) simp
  then have v: "verifications (db (snd (resendUserEmailVerification sample_env sample_world
      ''u1''))) = [\<lparr> verification_userId = ''u1'', verification_code = 55000,
        verification_expiresAt = 4600001 \<rparr>]"
    by (simp only: d)
  show ?thesis by (rule conjI u n l r(1) m other v)+
qed

subsection \<open>\<open>verifyUserEmail\<close>\<close>

lemma createSession_keeps_users:
  "users (db (snd (createSession e w uid))) = users (db w)"
  by (simp add: createSession_defs split: sum.split)

lemma createSession_adds_row:
  assumes "fst (createSession e w uid) = Inr created" and "status created = ''success''"
  shows "\<exists>row. sessions (db (snd (createSession e w uid))) = sessions (db w) @ [row] \<and>
           session_userId row = uid"
  using assms
  by (auto simp add: createSession_defs split: if_splits sum.splits)

text \<open>The four refusals, each with the state it leaves.\<close>

lemma verify_no_user:
  assumes "\<not> db_throws e Verify_SelectUser"
      and "filter (\<lambda>u. user_id u = uid) (users (db w)) = []"
  shows "verifyUserEmail e w uid authCode = (Inr (error_reply ''User not found''), w)"
  using assms by (simp add: verifyUserEmail_def verifyUserEmail_try_def catch_all_def)

lemma verify_already_verified:
  assumes "\<not> db_throws e Verify_SelectUser"
      and "filter (\<lambda>u. user_id u = uid) (users (db w)) = user # rest"
      and "user_emailVerified user \<noteq> None"
  shows "verifyUserEmail e w uid authCode = (Inr (error_reply ''Email already verified''), w)"
  using assms by (simp add: verifyUserEmail_def verifyUserEmail_try_def catch_all_def)

lemma verify_no_code:
  assumes "\<not> db_throws e Verify_SelectUser" and "\<not> db_throws e Verify_SelectVerification"
      and "filter (\<lambda>u. user_id u = uid) (users (db w)) = user # rest"
      and "user_emailVerified user = None"
      and "latest_verification (db w) uid = []"
  shows "verifyUserEmail e w uid authCode = (Inr (error_reply ''Verification code not found''), w)"
  using assms by (simp add: verifyUserEmail_def verifyUserEmail_try_def catch_all_def)

lemma verify_expired:
  assumes "\<not> db_throws e Verify_SelectUser" and "\<not> db_throws e Verify_SelectVerification"
      and "filter (\<lambda>u. user_id u = uid) (users (db w)) = user # rest"
      and "user_emailVerified user = None"
      and "latest_verification (db w) uid = v # rest'"
      and "verification_expiresAt v < clock e (clock_reads w)"
  shows "verifyUserEmail e w uid authCode =
           (Inr (error_reply ''Verification code has expired''),
            w\<lparr>clock_reads := Suc (clock_reads w)\<rparr>)"
  using assms
  by (simp add: verifyUserEmail_def verifyUserEmail_try_def catch_all_def Date_now_def)

lemma verify_mismatch:
  assumes "\<not> db_throws e Verify_SelectUser" and "\<not> db_throws e Verify_SelectVerification"
      and "filter (\<lambda>u. user_id u = uid) (users (db w)) = user # rest"
      and "user_emailVerified user = None"
      and "latest_verification (db w) uid = v # rest'"
      and "\<not> verification_expiresAt v < clock e (clock_reads w)"
      and "parseInt (join authCode) \<noteq> Some (real_of_int (verification_code v))"
  shows "verifyUserEmail e w uid authCode =
           (Inr (error_reply ''Incorrect verification code''),
            w\<lparr>clock_reads := Suc (clock_reads w)\<rparr>)"
proof -
  from assms(7) have "Some (real_of_int (verification_code v)) \<noteq> parseInt (join authCode)" by auto
  with assms(1-6) show ?thesis
    by (simp add: verifyUserEmail_def verifyUserEmail_try_def catch_all_def Date_now_def)
qed

text \<open>
  The accepted code: the user is marked verified, \<open>createSession\<close> runs in that
  state, and the action ends with what the handler of the \<open>try\<close> block makes of the
  rest.
\<close>

lemma verify_accepted_try:
  assumes "\<not> db_throws e Verify_SelectUser" and "\<not> db_throws e Verify_SelectVerification"
      and "\<not> db_throws e Verify_UpdateUser" and "\<not> db_undefined e Verify_UpdateUser"
      and "filter (\<lambda>u. user_id u = uid) (users (db w)) = user # rest"
      and "user_emailVerified user = None"
      and "latest_verification (db w) uid = v # rest'"
      and "\<not> verification_expiresAt v < clock e (clock_reads w)"
      and "parseInt (join authCode) = Some (real_of_int (verification_code v))"
  shows "verifyUserEmail_try e w uid authCode =
           (case createSession e (verified_state e w uid) uid of
              (Inl err, w4) \<Rightarrow> (Inl err, w4)
            | (Inr created, w4) \<Rightarrow>
                if status created = ''error''
                then (Inr (error_reply ''Unable to create session''), w4)
                else (redirect e (defaultLoginRedirect e), w4))"
proof -
  have "user \<in> set (filter (\<lambda>u. user_id u = uid) (users (db w)))"
    by (simp add: assms(5))
  then have uid: "user_id user = uid" by simp
  from assms(9) have eq: "Some (real_of_int (verification_code v)) = parseInt (join authCode)" by simp
  show ?thesis
    using assms(1-8) eq uid
    by (simp add: verifyUserEmail_try_def Date_now_def Let_def verified_state_def)
qed

lemma verify_accepted:
  assumes "\<not> db_throws e Verify_SelectUser" and "\<not> db_throws e Verify_SelectVerification"
      and "\<not> db_throws e Verify_UpdateUser" and "\<not> db_undefined e Verify_UpdateUser"
      and "filter (\<lambda>u. user_id u = uid) (users (db w)) = user # rest"
      and "user_emailVerified user = None"
      and "latest_verification (db w) uid = v # rest'"
      and "\<not> verification_expiresAt v < clock e (clock_reads w)"
      and "parseInt (join authCode) = Some (real_of_int (verification_code v))"
  shows "snd (verifyUserEmail e w uid authCode) =
           snd (createSession e (verified_state e w uid) uid) \<and>
         fst (verifyUserEmail e w uid authCode) =
           (case fst (createSession e (verified_state e w uid) uid) of
              Inl err \<Rightarrow> Inr (error_reply ''Unable to verify email'')
            | Inr created \<Rightarrow>
                if status created = ''error'' then Inr (error_reply ''Unable to create session'')
                else (case redirect e (defaultLoginRedirect e) of
                        Inl err \<Rightarrow> Inr (error_reply ''Unable to verify email'')
                      | Inr v \<Rightarrow> Inr v))"
proof -
  note run = verify_accepted_try [OF assms]
  obtain a w4 where cs: "createSession e (verified_state e w uid) uid = (a, w4)"
    by (cases "createSession e (verified_state e w uid) uid")
  show ?thesis
  proof (cases a)
    case (Inl err)
    with cs run show ?thesis
      by (simp add: verifyUserEmail_def catch_all_def)
  next
    case (Inr created)
    show ?thesis
    proof (cases "status created = ''error''")
      case True
      with Inr cs run show ?thesis
        by (simp add: verifyUserEmail_def catch_all_def)
    next
      case False
      with Inr cs run show ?thesis
        by (cases "redirect e (defaultLoginRedirect e)")
          (simp_all add: verifyUserEmail_def catch_all_def)
    qed
  qed
qed

lemma verify_check_Accepted_iff:
  "verify_check d now uid authCode = Accepted \<longleftrightarrow>
     (\<exists>user rest v rest'.
        filter (\<lambda>u. user_id u = uid) (users d) = user # rest \<and>
        user_emailVerified user = None \<and>
        latest_verification d uid = v # rest' \<and>
        \<not> verification_expiresAt v < now \<and>
        parseInt (join authCode) = Some (real_of_int (verification_code v)))"
proof (cases "filter (\<lambda>u. user_id u = uid) (users d)")
  case Nil
  then show ?thesis by (simp add: verify_check_def)
next
  case (Cons user rest)
  show ?thesis
  proof (cases "latest_verification d uid")
    case Nil
    with Cons show ?thesis by (simp add: verify_check_def)
  next
    case (Cons v rest')
    with \<open>filter (\<lambda>u. user_id u = uid) (users d) = user # rest\<close> show ?thesis
      by (simp add: verify_check_def)
  qed
qed

lemma verify_refused:
  assumes "\<not> db_throws e Verify_SelectUser" and "\<not> db_throws e Verify_SelectVerification"
      and "verify_check (db w) (clock e (clock_reads w)) uid authCode \<noteq> Accepted"
  shows "(\<exists>m \<in> failure_messages (verify_check (db w) (clock e (clock_reads w)) uid authCode).
            fst (verifyUserEmail e w uid authCode) = Inr (error_reply m)) \<and>
         db (snd (verifyUserEmail e w uid authCode)) = db w \<and>
         cookieStore (snd (verifyUserEmail e w uid authCode)) = cookieStore w"
proof (cases "filter (\<lambda>u. user_id u = uid) (users (db w))")
  case Nil
  then have k: "verify_check (db w) (clock e (clock_reads w)) uid authCode = NotFound"
    by (simp add: verify_check_def)
  show ?thesis
    by (simp add: k failure_messages_def verify_no_user [OF assms(1) Nil])
next
  case (Cons user rest)
  note user = Cons
  show ?thesis
  proof (cases "user_emailVerified user = None")
    case False
    with user have k: "verify_check (db w) (clock e (clock_reads w)) uid authCode = AlreadyVerified"
      by (simp add: verify_check_def)
    show ?thesis
      by (simp add: k failure_messages_def verify_already_verified [OF assms(1) user False])
  next
    case True
    note unverified = True
    show ?thesis
    proof (cases "latest_verification (db w) uid")
      case Nil
      with user unverified
      have k: "verify_check (db w) (clock e (clock_reads w)) uid authCode = NotFound"
        by (simp add: verify_check_def)
      show ?thesis
        by (simp add: k failure_messages_def verify_no_code [OF assms(1,2) user unverified Nil])
    next
      case (Cons v rest')
      note code = Cons
      show ?thesis
      proof (cases "verification_expiresAt v < clock e (clock_reads w)")
        case True
        with user unverified code
        have k: "verify_check (db w) (clock e (clock_reads w)) uid authCode = Expired"
          by (simp add: verify_check_def)
        show ?thesis
          by (simp add: k failure_messages_def
              verify_expired [OF assms(1,2) user unverified code True])
      next
        case False
        note fresh = False
        show ?thesis
        proof (cases "parseInt (join authCode) = Some (real_of_int (verification_code v))")
          case True
          with user unverified code fresh
          have "verify_check (db w) (clock e (clock_reads w)) uid authCode = Accepted"
            by (simp add: verify_check_def)
          with assms(3) show ?thesis by simp
        next
          case False
          with user unverified code fresh
          have k: "verify_check (db w) (clock e (clock_reads w)) uid authCode = Mismatch"
            by (simp add: verify_check_def)
          show ?thesis
            by (simp add: k failure_messages_def
                verify_mismatch [OF assms(1,2) user unverified code fresh False])
        qed
      qed
    qed
  qed
qed

text \<open>
  Claim C3, as amended. With database calls of \<open>verifyUserEmail\<close> that complete: the
  submission is accepted exactly when the user exists, is not verified, has a stored
  code whose expiry is not strictly before the clock reading, and the number that
  \<open>parseInt\<close> reads from the joined submission is the stored code. A refused
  submission is answered with the error of its kind (not found, already verified,
  expired, mismatch) and changes neither database nor cookies. An accepted one marks the
  user verified at the next clock reading and runs \<open>createSession\<close> in that state,
  whose state is the final one; when \<open>createSession\<close> throws, the answer is the
  further error \<open>Unable to verify email\<close>, when it returns an error, the further
  error \<open>Unable to create session\<close>, and when it succeeds, a session row of the user
  has been added. What the action answers after a created session is not part of the
  statement.
\<close>

theorem verifyUserEmail_outcomes:
  assumes "\<not> db_throws e Verify_SelectUser" and "\<not> db_throws e Verify_SelectVerification"
      and "\<not> db_throws e Verify_UpdateUser" and "\<not> db_undefined e Verify_UpdateUser"
  shows "(verify_check (db w) (clock e (clock_reads w)) uid authCode = Accepted \<longleftrightarrow>
            (\<exists>user rest v rest'.
               filter (\<lambda>u. user_id u = uid) (users (db w)) = user # rest \<and>
               user_emailVerified user = None \<and>
               latest_verification (db w) uid = v # rest' \<and>
               \<not> verification_expiresAt v < clock e (clock_reads w) \<and>
               parseInt (join authCode) = Some (real_of_int (verification_code v)))) \<and>
         (verify_check (db w) (clock e (clock_reads w)) uid authCode \<noteq> Accepted \<longrightarrow>
            (\<exists>m \<in> failure_messages (verify_check (db w) (clock e (clock_reads w)) uid authCode).
               fst (verifyUserEmail e w uid authCode) = Inr (error_reply m)) \<and>
            db (snd (verifyUserEmail e w uid authCode)) = db w \<and>
            cookieStore (snd (verifyUserEmail e w uid authCode)) = cookieStore w) \<and>
         (verify_check (db w) (clock e (clock_reads w)) uid authCode = Accepted \<longrightarrow>
            users (db (snd (verifyUserEmail e w uid authCode))) =
              users (update_emailVerified (db w) uid (clock e (Suc (clock_reads w)))) \<and>
            snd (verifyUserEmail e w uid authCode) =
              snd (createSession e (verified_state e w uid) uid) \<and>
            (\<forall>err.
               fst (createSession e (verified_state e w uid) uid) = Inl err \<longrightarrow>
                 fst (verifyUserEmail e w uid authCode) =
                   Inr (error_reply ''Unable to verify email'')) \<and>
            (\<forall>created.
               fst (createSession e (verified_state e w uid) uid) = Inr created \<and>
               status created = ''error'' \<longrightarrow>
                 fst (verifyUserEmail e w uid authCode) =
                   Inr (error_reply ''Unable to create session'')) \<and>
            (\<forall>created.
               fst (createSession e (verified_state e w uid) uid) = Inr created \<and>
               status created = ''success'' \<longrightarrow>
                 (\<exists>row. sessions (db (snd (verifyUserEmail e w uid authCode))) =
                          sessions (db w) @ [row] \<and> session_userId row = uid)))"
proof (intro conjI impI)
  show "verify_check (db w) (clock e (clock_reads w)) uid authCode = Accepted \<longleftrightarrow>
            (\<exists>user rest v rest'.
               filter (\<lambda>u. user_id u = uid) (users (db w)) = user # rest \<and>
               user_emailVerified user = None \<and>
               latest_verification (db w) uid = v # rest' \<and>
               \<not> verification_expiresAt v < clock e (clock_reads w) \<and>
               parseInt (join authCode) = Some (real_of_int (verification_code v)))"
    by (rule verify_check_Accepted_iff)
next
  assume refused: "verify_check (db w) (clock e (clock_reads w)) uid authCode \<noteq> Accepted"
  note r = verify_refused [OF assms(1,2) refused]
  from r show "\<exists>m \<in> failure_messages (verify_check (db w) (clock e (clock_reads w)) uid authCode).
      fst (verifyUserEmail e w uid authCode) = Inr (error_reply m)"
    by (rule conjunct1)
  from r show "db (snd (verifyUserEmail e w uid authCode)) = db w"
    by simp
  from r show "cookieStore (snd (verifyUserEmail e w uid authCode)) = cookieStore w"
    by simp
next
  assume "verify_check (db w) (clock e (clock_reads w)) uid authCode = Accepted"
  then obtain user rest v rest' where
    c: "filter (\<lambda>u. user_id u = uid) (users (db w)) = user # rest"
       "user_emailVerified user = None"
       "latest_verification (db w) uid = v # rest'"
       "\<not> verification_expiresAt v < clock e (clock_reads w)"
       "parseInt (join authCode) = Some (real_of_int (verification_code v))"
    unfolding verify_check_Accepted_iff by blast
  note a = verify_accepted [OF assms c]
  from a show state: "snd (verifyUserEmail e w uid authCode) =
      snd (createSession e (verified_state e w uid) uid)"
    by (rule conjunct1)
  from a have answer: "fst (verifyUserEmail e w uid authCode) =
      (case fst (createSession e (verified_state e w uid) uid) of
         Inl err \<Rightarrow> Inr (error_reply ''Unable to verify email'')
       | Inr created \<Rightarrow>
           if status created = ''error'' then Inr (error_reply ''Unable to create session'')
           else (case redirect e (defaultLoginRedirect e) of
                   Inl err \<Rightarrow> Inr (error_reply ''Unable to verify email'')
                 | Inr v \<Rightarrow> Inr v))"
    by (rule conjunct2)
  show "\<forall>err. fst (createSession e (verified_state e w uid) uid) = Inl err \<longrightarrow>
      fst (verifyUserEmail e w uid authCode) = Inr (error_reply ''Unable to verify email'')"
    by (simp add: answer)
  show "\<forall>created.
      fst (createSession e (verified_state e w uid) uid) = Inr created \<and>
      status created = ''error'' \<longrightarrow>
        fst (verifyUserEmail e w uid authCode) = Inr (error_reply ''Unable to create session'')"
    by (simp add: answer)
  show "users (db (snd (verifyUserEmail e w uid authCode))) =
      users (update_emailVerified (db w) uid (clock e (Suc (clock_reads w))))"
    by (simp add: state createSession_keeps_users verified_state_def)
  show "\<forall>created.
      fst (createSession e (verified_state e w uid) uid) = Inr created \<and>
      status created = ''success'' \<longrightarrow>
        (\<exists>row. sessions (db (snd (verifyUserEmail e w uid authCode))) =
                 sessions (db w) @ [row] \<and> session_userId row = uid)"
  proof (intro allI impI)
    fix created
    assume ok: "fst (createSession e (verified_state e w uid) uid) = Inr created \<and>
      status created = ''success''"
    have "sessions (db (verified_state e w uid)) = sessions (db w)"
      by (simp add: verified_state_def update_emailVerified_def)
    with createSession_adds_row [of e "verified_state e w uid" uid created] ok
    show "\<exists>row. sessions (db (snd (verifyUserEmail e w uid authCode))) =
        sessions (db w) @ [row] \<and> session_userId row = uid"
      by (simp add: state)
  qed
qed

lemmas code_defs = verify_check_def latest_verification_def parseInt_five_digits

lemma sample_code_accepted:
  "verify_check (db sample_world) (clock sample_env (clock_reads sample_world)) ''u1''
     [''1'', ''2'', ''3'', ''4'', ''5''] = Accepted"
  by (simp add: code_defs sample_defs)

lemma createSession_after_verification:
  "fst (createSession sample_env (verified_state sample_env sample_world ''u1'') ''u1'') =
     Inr \<lparr> status = ''success'', message = Some ''Successfully created session'',
           userId = None, session = Some ''signed:s1'' \<rparr>"
  by (simp add: createSession_defs sample_defs verified_state_def update_emailVerified_def)

text \<open>
  Submissions that are not the five digits of the stored code and are accepted all the
  same, since \<open>parseInt\<close> stops reading at the first character that is no digit: an
  array whose last number has a fraction, and one whose last number prints with an
  exponent.
\<close>

lemma lenient_submissions_accepted:
  "verify_check (db sample_world) (clock sample_env (clock_reads sample_world)) ''u1''
     [''1'', ''2'', ''3'', ''4'', ''5.9''] = Accepted \<and>
   verify_check (db sample_world) (clock sample_env (clock_reads sample_world)) ''u1''
     [''1234'', ''5e+21''] = Accepted"
  by (simp add: verify_check_def latest_verification_def parseInt_fraction parseInt_exponent
      sample_defs)

text \<open>
  The sample user submits the stored code 12345 in time: the user is marked verified
  at the second reading of the clock and a session row of the user is added.
\<close>

theorem verifyUserEmail_outcomes_witness:
  "\<not> db_throws sample_env Verify_SelectUser \<and>
   \<not> db_throws sample_env Verify_SelectVerification \<and>
   \<not> db_throws sample_env Verify_UpdateUser \<and>
   \<not> db_undefined sample_env Verify_UpdateUser \<and>
   verify_check (db sample_world) (clock sample_env (clock_reads sample_world)) ''u1''
     [''1'', ''2'', ''3'', ''4'', ''5''] = Accepted \<and>
   users (db (snd (verifyUserEmail sample_env sample_world ''u1'' [''1'', ''2'', ''3'', ''4'', ''5'']))) =
     [sample_user\<lparr>user_emailVerified := Some 1000001\<rparr>] \<and>
   (\<exists>row. sessions (db (snd (verifyUserEmail sample_env sample_world ''u1'' [''1'', ''2'', ''3'', ''4'', ''5'']))) =
            [row] \<and> session_userId row = ''u1'')"
proof -
  have f: "\<not> db_throws sample_env Verify_SelectUser"
    "\<not> db_throws sample_env Verify_SelectVerification"
    "\<not> db_throws sample_env Verify_UpdateUser"
    "\<not> db_undefined sample_env Verify_UpdateUser"
    by (simp_all add: sample_defs)
  note k = sample_code_accepted
  note accepted =
    verifyUserEmail_outcomes [OF f, of sample_world "''u1''" "[''1'', ''2'', ''3'', ''4'', ''5'']",
      THEN conjunct2, THEN conjunct2, THEN mp, OF k]
  from accepted
  have "users (db (snd (verifyUserEmail sample_env sample_world ''u1'' [''1'', ''2'', ''3'', ''4'', ''5'']))) =
      users (update_emailVerified (db sample_world) ''u1''
               (clock sample_env (Suc (clock_reads sample_world))))"
    by (rule conjunct1)
  then have u: "users (db (snd (verifyUserEmail sample_env sample_world ''u1'' [''1'', ''2'', ''3'', ''4'', ''5'']))) =
      [sample_user\<lparr>user_emailVerified := Some 1000001\<rparr>]"
    by (simp add: update_emailVerified_def sample_defs)
  note created =
    accepted [THEN conjunct2, THEN conjunct2, THEN conjunct2, THEN conjunct2, THEN spec, THEN mp]
  have "\<exists>row. sessions (db (snd (verifyUserEmail sample_env sample_world ''u1'' [''1'', ''2'', ''3'', ''4'', ''5'']))) =
      sessions (db sample_world) @ [row] \<and> session_userId row = ''u1''"
    by (rule created [OF conjI [OF createSession_after_verification]]) simp
  then have s: "\<exists>row. sessions (db (snd (verifyUserEmail sample_env sample_world ''u1''
      [''1'', ''2'', ''3'', ''4'', ''5'']))) = [row] \<and> session_userId row = ''u1''"
    by (simp add: sample_defs)
  from f k u s show ?thesis by simp
qed

text \<open>
  Claim C3 as stated fails. The sample user exists, is not verified, and submits the
  stored, unexpired code; yet with a storage that rejects its calls the action answers
  \<open>Unable to verify email\<close>, and with a signer that fails it answers \<open>Unable to
  create session\<close>: neither a success nor one of the four kinds of the claim.
\<close>

theorem verifyUserEmail_further_failures:
  "filter (\<lambda>u. user_id u = ''u1'') (users (db sample_world)) = [sample_user] \<and>
   user_emailVerified sample_user = None \<and>
   latest_verification (db sample_world) ''u1'' =
     [\<lparr> verification_userId = ''u1'', verification_code = 12345,
        verification_expiresAt = 1200000 \<rparr>] \<and>
   \<not> 1200000 < clock sample_env (clock_reads sample_world) \<and>
   parseInt (join [''1'', ''2'', ''3'', ''4'', ''5'']) = Some 12345 \<and>
   fst (verifyUserEmail storage_down_env sample_world ''u1'' [''1'', ''2'', ''3'', ''4'', ''5'']) =
     Inr (error_reply ''Unable to verify email'') \<and>
   fst (verifyUserEmail signer_down_env sample_world ''u1'' [''1'', ''2'', ''3'', ''4'', ''5'']) =
     Inr (error_reply ''Unable to create session'')"
proof -
  have u: "filter (\<lambda>u. user_id u = ''u1'') (users (db sample_world)) = sample_user # []"
    by (simp add: sample_defs)
  have n: "user_emailVerified sample_user = None"
    by (simp add: sample_defs)
  have l: "latest_verification (db sample_world) ''u1'' =
      \<lparr> verification_userId = ''u1'', verification_code = 12345,
        verification_expiresAt = 1200000 \<rparr> # []"
    by (simp add: latest_verification_def sample_defs)
  have t: "\<not> 1200000 < clock sample_env (clock_reads sample_world)"
    by (simp add: sample_defs)
  have p: "parseInt (join [''1'', ''2'', ''3'', ''4'', ''5'']) = Some 12345"
    by (rule parseInt_five_digits)
  have down: "fst (verifyUserEmail storage_down_env sample_world ''u1'' [''1'', ''2'', ''3'', ''4'', ''5'']) =
      Inr (error_reply ''Unable to verify email'')"
    by (simp add: verifyUserEmail_def verifyUserEmail_try_def catch_all_def storage_down_defs)
  have f: "\<not> db_throws signer_down_env Verify_SelectUser"
    "\<not> db_throws signer_down_env Verify_SelectVerification"
    "\<not> db_throws signer_down_env Verify_UpdateUser"
    "\<not> db_undefined signer_down_env Verify_UpdateUser"
    by (simp_all add: signer_down_env_def sample_defs)
  have t': "\<not> verification_expiresAt \<lparr> verification_userId = ''u1'', verification_code = 12345,
        verification_expiresAt = 1200000 \<rparr> < clock signer_down_env (clock_reads sample_world)"
    by (simp add: signer_down_env_def sample_defs)
  have p': "parseInt (join [''1'', ''2'', ''3'', ''4'', ''5'']) =
      Some (verification_code \<lparr> verification_userId = ''u1'', verification_code = 12345,
        verification_expiresAt = 1200000 \<rparr>)"
    using p by simp
  have cs: "fst (createSession signer_down_env (verified_state signer_down_env sample_world ''u1'')
      ''u1'') = Inr (error_reply ''Unable to store local session'')"
    by (simp add: createSession_defs signer_down_env_def sample_defs verified_state_def
        update_emailVerified_def)
  from verify_accepted [OF f u n l t' p']
  have signer: "fst (verifyUserEmail signer_down_env sample_world ''u1'' [''1'', ''2'', ''3'', ''4'', ''5'']) =
      Inr (error_reply ''Unable to create session'')"
    by (simp add: cs)
  show ?thesis by (rule conjI u n l t p down signer)+
qed

text \<open>
  The framework's \<open>redirect\<close> leaves by throwing its signal. The call stands inside
  the \<open>try\<close> block, so the handler receives the signal: after an accepted code and a
  created session the action still answers \<open>Unable to verify email\<close>.
\<close>

lemma verifyUserEmail_redirect_thrown:
  assumes "\<not> db_throws e Verify_SelectUser" and "\<not> db_throws e Verify_SelectVerification"
      and "\<not> db_throws e Verify_UpdateUser" and "\<not> db_undefined e Verify_UpdateUser"
      and "verify_check (db w) (clock e (clock_reads w)) uid authCode = Accepted"
      and "fst (createSession e (verified_state e w uid) uid) = Inr created"
      and "status created \<noteq> ''error''"
      and "redirect e (defaultLoginRedirect e) = Inl (NEXT_REDIRECT (defaultLoginRedirect e))"
  shows "fst (verifyUserEmail e w uid authCode) = Inr (error_reply ''Unable to verify email'')"
proof -
  from assms(5) obtain user rest v rest' where
    c: "filter (\<lambda>u. user_id u = uid) (users (db w)) = user # rest"
       "user_emailVerified user = None"
       "latest_verification (db w) uid = v # rest'"
       "\<not> verification_expiresAt v < clock e (clock_reads w)"
       "parseInt (join authCode) = Some (real_of_int (verification_code v))"
    unfolding verify_check_Accepted_iff by blast
  from verify_accepted [OF assms(1-4) c] assms(6-8) show ?thesis by simp
qed

lemma verifyUserEmail_sample_run:
  "fst (verifyUserEmail sample_env sample_world ''u1'' [''1'', ''2'', ''3'', ''4'', ''5'']) =
     Inr (error_reply ''Unable to verify email'')"
proof -
  have f: "\<not> db_throws sample_env Verify_SelectUser"
    "\<not> db_throws sample_env Verify_SelectVerification"
    "\<not> db_throws sample_env Verify_UpdateUser"
    "\<not> db_undefined sample_env Verify_UpdateUser"
    by (simp_all add: sample_defs)
  have r: "redirect sample_env (defaultLoginRedirect sample_env) =
      Inl (NEXT_REDIRECT (defaultLoginRedirect sample_env))"
    by (simp add: sample_defs)
  show ?thesis
    by (rule verifyUserEmail_redirect_thrown
        [OF f sample_code_accepted createSession_after_verification _ r]) simp
qed

end
